theory Spec2Isabelle
  imports Main
begin

section \<open>The OctoPrint container manager: data model\<close>

text \<open>
  The manager keeps one row per container in the SQLite table \<open>containers\<close>
  (\<open>id TEXT PRIMARY KEY, device TEXT NOT NULL, port INTEGER NOT NULL, name TEXT\<close>),
  drives the Docker engine through its client, and keeps one storage directory per
  container. The table is a list of rows in the order SQLite returns them; the nullable
  column \<open>name\<close> is an option.
\<close>

record row =
  row_id :: string
  device :: string
  port :: int
  name :: "string option"

text \<open>
  What \<open>createOctoPrintContainer\<close> hands to the engine (\<open>container.Config\<close> and
  \<open>container.HostConfig\<close>), and an instance as the engine reports it.
\<close>

record container_config =
  Image :: string
  ContainerPort :: string
  HostPort :: string
  MountSource :: string
  MountTarget :: string
  PathOnHost :: string
  PathInContainer :: string
  CgroupPermissions :: string
  RestartPolicy :: string

record container_instance =
  Config :: container_config
  Running :: bool

text \<open>
  Every call that leaves the process: to the database handle, to the Docker client, to
  the file system. Each call is appended to the trace of the world when it is issued,
  and each may fail for a reason outside the program (the fault oracle of type
  \<open>call \<Rightarrow> bool\<close> says which ones do).
\<close>

datatype call =
    SelectMaxPort
  | InsertRow string
  | SelectRows
  | RowsNext string
  | ScanRow string
  | DeleteRow string
  | SelectRow string
  | UpdateName string
  | Mkdir string
  | Rmdir string
  | Readlink string
  | Inspect string
  | Create string container_config
  | Start string
  | Stop string
  | Remove string
  | Restart string

type_synonym faults = "call \<Rightarrow> bool"

text \<open>
  Go errors as values. \<open>EnvError c\<close> is the error an outside call \<open>c\<close> returned;
  the other constructors are the wrappers the program builds with \<open>fmt.Errorf\<close>.
  \<open>FailedToResolveDeviceSymlink\<close> is the error the specification calls DeviceNotFound.
\<close>

datatype error =
    EnvError call
  | NoSuchContainer string
  | NameConflict string
  | PrimaryKeyConflict string
  | NoRows
  | NoSuchFile string
  | FailedToResolveDeviceSymlink string error
  | FailedToCreateContainer error
  | FailedToStartContainer error
  | FailedToQueryMaxPort error
  | FailedToGetNextAvailablePort error
  | FailedToCreateVolumeDirectory error
  | FailedToInsertNewContainer error
  | FailedToQueryContainers error
  | ErrorIteratingRows error
  | FailedToScanRow error
  | FailedToStartExistingContainer string error
  | FailedToCreateContainerNamed string error
  | EncounteredErrors "error list"

record world =
  db :: "row list"
  containers :: "string \<rightharpoonup> container_instance"
  dirs :: "string set"
  symlinks :: "string \<rightharpoonup> string"
  trace :: "call list"

definition issue :: "call \<Rightarrow> world \<Rightarrow> world" where
  "issue c w = w\<lparr>trace := trace w @ [c]\<rparr>"

section \<open>The collaborators: database, file system, Docker engine\<close>

text \<open>
  \<open>SELECT MAX(port) FROM containers\<close>: NULL on an empty table, the largest port
  otherwise (the column is NOT NULL).
\<close>

fun sql_max :: "int list \<Rightarrow> int option" where
  "sql_max [] = None"
| "sql_max (x # xs) = Some (fold max xs x)"

definition db_SelectMaxPort :: "faults \<Rightarrow> world \<Rightarrow> world \<times> (error + int option)" where
  "db_SelectMaxPort f w =
     (if f SelectMaxPort then (issue SelectMaxPort w, Inl (EnvError SelectMaxPort))
      else (issue SelectMaxPort w, Inr (sql_max (map port (db w)))))"

text \<open>
  \<open>INSERT INTO containers (id, device, port) VALUES (?, ?, ?)\<close>: the primary key
  rejects an id that is already in the table; the new row has no name.
\<close>

definition db_Insert :: "faults \<Rightarrow> string \<Rightarrow> string \<Rightarrow> int \<Rightarrow> world \<Rightarrow> world \<times> (error + unit)" where
  "db_Insert f i d p w =
     (if f (InsertRow i) then (issue (InsertRow i) w, Inl (EnvError (InsertRow i)))
      else if i \<in> set (map row_id (db w))
      then (issue (InsertRow i) w, Inl (PrimaryKeyConflict i))
      else (issue (InsertRow i)
              (w\<lparr>db := db w @ [\<lparr>row_id = i, device = d, port = p, name = None\<rparr>]\<rparr>),
            Inr ()))"

text \<open>\<open>DELETE FROM containers WHERE id = ?\<close>\<close>

definition db_Delete :: "faults \<Rightarrow> string \<Rightarrow> world \<Rightarrow> world \<times> (error + unit)" where
  "db_Delete f i w =
     (if f (DeleteRow i) then (issue (DeleteRow i) w, Inl (EnvError (DeleteRow i)))
      else (issue (DeleteRow i) (w\<lparr>db := filter (\<lambda>r. row_id r \<noteq> i) (db w)\<rparr>), Inr ()))"

text \<open>\<open>UPDATE containers SET name = ? WHERE id = ?\<close>\<close>

definition db_UpdateName :: "faults \<Rightarrow> string \<Rightarrow> string \<Rightarrow> world \<Rightarrow> world \<times> (error + unit)" where
  "db_UpdateName f i n w =
     (if f (UpdateName i) then (issue (UpdateName i) w, Inl (EnvError (UpdateName i)))
      else (issue (UpdateName i)
              (w\<lparr>db := map (\<lambda>r. if row_id r = i then r\<lparr>name := Some n\<rparr> else r) (db w)\<rparr>),
            Inr ()))"

text \<open>
  \<open>SELECT device, port FROM containers WHERE id = ?\<close> through \<open>QueryRow(...).Scan\<close>:
  the first matching row, or \<open>sql.ErrNoRows\<close>.
\<close>

definition db_SelectRow :: "faults \<Rightarrow> string \<Rightarrow> world \<Rightarrow> world \<times> (error + string \<times> int)" where
  "db_SelectRow f i w =
     (if f (SelectRow i) then (issue (SelectRow i) w, Inl (EnvError (SelectRow i)))
      else (case find (\<lambda>r. row_id r = i) (db w) of
              None \<Rightarrow> (issue (SelectRow i) w, Inl NoRows)
            | Some r \<Rightarrow> (issue (SelectRow i) w, Inr (device r, port r))))"

text \<open>\<open>db.Query\<close> of all rows: the cursor holds the table as it is now.\<close>

definition db_SelectRows :: "faults \<Rightarrow> world \<Rightarrow> world \<times> (error + row list)" where
  "db_SelectRows f w =
     (if f SelectRows then (issue SelectRows w, Inl (EnvError SelectRows))
      else (issue SelectRows w, Inr (db w)))"

text \<open>
  The file system: \<open>os.MkdirAll\<close>, \<open>os.RemoveAll\<close> (no error on a path that is not
  there) and \<open>filepath.EvalSymlinks\<close>, which fails on a link that is missing. A call
  that fails leaves the world as it was.
\<close>

definition os_MkdirAll :: "faults \<Rightarrow> string \<Rightarrow> world \<Rightarrow> world \<times> (error + unit)" where
  "os_MkdirAll f p w =
     (if f (Mkdir p) then (issue (Mkdir p) w, Inl (EnvError (Mkdir p)))
      else (issue (Mkdir p) (w\<lparr>dirs := insert p (dirs w)\<rparr>), Inr ()))"

definition os_RemoveAll :: "faults \<Rightarrow> string \<Rightarrow> world \<Rightarrow> world \<times> (error + unit)" where
  "os_RemoveAll f p w =
     (if f (Rmdir p) then (issue (Rmdir p) w, Inl (EnvError (Rmdir p)))
      else (issue (Rmdir p) (w\<lparr>dirs := dirs w - {p}\<rparr>), Inr ()))"

definition filepath_EvalSymlinks :: "faults \<Rightarrow> string \<Rightarrow> world \<Rightarrow> world \<times> (error + string)" where
  "filepath_EvalSymlinks f p w =
     (if f (Readlink p) then (issue (Readlink p) w, Inl (EnvError (Readlink p)))
      else (case symlinks w p of
              None \<Rightarrow> (issue (Readlink p) w, Inl (NoSuchFile p))
            | Some target \<Rightarrow> (issue (Readlink p) w, Inr target)))"

text \<open>
  The Docker engine, as far as the manager uses it. Instances are keyed by name.
  Creating under a name in use is a conflict; start, stop, restart, remove and inspect
  of a name that is not there fail with "no such container"; starting a running
  instance and stopping a stopped one succeed.
\<close>

definition cli_ContainerCreate ::
    "faults \<Rightarrow> string \<Rightarrow> container_config \<Rightarrow> world \<Rightarrow> world \<times> (error + unit)" where
  "cli_ContainerCreate f n cfg w =
     (if f (Create n cfg) then (issue (Create n cfg) w, Inl (EnvError (Create n cfg)))
      else (case containers w n of
              Some c \<Rightarrow> (issue (Create n cfg) w, Inl (NameConflict n))
            | None \<Rightarrow>
                (issue (Create n cfg)
                   (w\<lparr>containers := (containers w)(n \<mapsto> \<lparr>Config = cfg, Running = False\<rparr>)\<rparr>),
                 Inr ())))"

definition cli_ContainerStart :: "faults \<Rightarrow> string \<Rightarrow> world \<Rightarrow> world \<times> (error + unit)" where
  "cli_ContainerStart f n w =
     (if f (Start n) then (issue (Start n) w, Inl (EnvError (Start n)))
      else (case containers w n of
              None \<Rightarrow> (issue (Start n) w, Inl (NoSuchContainer n))
            | Some c \<Rightarrow>
                (issue (Start n) (w\<lparr>containers := (containers w)(n \<mapsto> c\<lparr>Running := True\<rparr>)\<rparr>),
                 Inr ())))"

definition cli_ContainerInspect ::
    "faults \<Rightarrow> string \<Rightarrow> world \<Rightarrow> world \<times> (error + container_instance)" where
  "cli_ContainerInspect f n w =
     (if f (Inspect n) then (issue (Inspect n) w, Inl (EnvError (Inspect n)))
      else (case containers w n of
              None \<Rightarrow> (issue (Inspect n) w, Inl (NoSuchContainer n))
            | Some c \<Rightarrow> (issue (Inspect n) w, Inr c)))"

definition cli_ContainerStop :: "faults \<Rightarrow> string \<Rightarrow> world \<Rightarrow> world \<times> (error + unit)" where
  "cli_ContainerStop f n w =
     (if f (Stop n) then (issue (Stop n) w, Inl (EnvError (Stop n)))
      else (case containers w n of
              None \<Rightarrow> (issue (Stop n) w, Inl (NoSuchContainer n))
            | Some c \<Rightarrow>
                (issue (Stop n) (w\<lparr>containers := (containers w)(n \<mapsto> c\<lparr>Running := False\<rparr>)\<rparr>),
                 Inr ())))"

definition cli_ContainerRemove :: "faults \<Rightarrow> string \<Rightarrow> world \<Rightarrow> world \<times> (error + unit)" where
  "cli_ContainerRemove f n w =
     (if f (Remove n) then (issue (Remove n) w, Inl (EnvError (Remove n)))
      else (case containers w n of
              None \<Rightarrow> (issue (Remove n) w, Inl (NoSuchContainer n))
            | Some c \<Rightarrow>
                (issue (Remove n) (w\<lparr>containers := (containers w)(n := None)\<rparr>), Inr ())))"

definition cli_ContainerRestart :: "faults \<Rightarrow> string \<Rightarrow> world \<Rightarrow> world \<times> (error + unit)" where
  "cli_ContainerRestart f n w =
     (if f (Restart n) then (issue (Restart n) w, Inl (EnvError (Restart n)))
      else (case containers w n of
              None \<Rightarrow> (issue (Restart n) w, Inl (NoSuchContainer n))
            | Some c \<Rightarrow>
                (issue (Restart n) (w\<lparr>containers := (containers w)(n \<mapsto> c\<lparr>Running := True\<rparr>)\<rparr>),
                 Inr ())))"

text \<open>
  Which calls touch a runtime instance, which of them change it, and which concern the
  instance of a given name.
\<close>

fun runtime_mutation :: "call \<Rightarrow> bool" where
  "runtime_mutation (Create n cfg) = True"
| "runtime_mutation (Start n) = True"
| "runtime_mutation (Stop n) = True"
| "runtime_mutation (Remove n) = True"
| "runtime_mutation (Restart n) = True"
| "runtime_mutation c = False"

fun runtime_call_on :: "string \<Rightarrow> call \<Rightarrow> bool" where
  "runtime_call_on m (Inspect n) = (n = m)"
| "runtime_call_on m (Create n cfg) = (n = m)"
| "runtime_call_on m (Start n) = (n = m)"
| "runtime_call_on m (Stop n) = (n = m)"
| "runtime_call_on m (Remove n) = (n = m)"
| "runtime_call_on m (Restart n) = (n = m)"
| "runtime_call_on m c = False"

text \<open>
  Go's \<open>int\<close> on a 64-bit target: addition wraps around in two's complement.
\<close>

definition int64_wrap :: "int \<Rightarrow> int" where
  "int64_wrap x = (x + 2 ^ 63) mod 2 ^ 64 - 2 ^ 63"

definition int64_range :: "int \<Rightarrow> bool" where
  "int64_range x \<longleftrightarrow> - (2 ^ 63) \<le> x \<and> x < 2 ^ 63"

section \<open>The port allocator\<close>

definition getNextAvailablePort :: "faults \<Rightarrow> world \<Rightarrow> world \<times> (error + int)" where
  "getNextAvailablePort f w =
     (case db_SelectMaxPort f w of
        (w1, Inl err) \<Rightarrow> (w1, Inl (FailedToQueryMaxPort err))
      | (w1, Inr None) \<Rightarrow> (w1, Inr 2000)
      | (w1, Inr (Some maxPort)) \<Rightarrow> (w1, Inr (int64_wrap (maxPort + 1))))"

section \<open>Creating an instance\<close>

text \<open>\<open>strconv.Itoa\<close>: the decimal digits, with a minus sign below zero.\<close>

fun digits :: "nat \<Rightarrow> string" where
  "digits n =
     (if n < 10 then [''0123456789'' ! n]
      else digits (n div 10) @ [''0123456789'' ! (n mod 10)])"

definition Itoa :: "int \<Rightarrow> string" where
  "Itoa i = (if i < 0 then ''-'' @ digits (nat (- i)) else digits (nat i))"

text \<open>
  \<open>createOctoPrintContainer\<close> resolves the device link, creates the instance under the
  name derived from the id and starts it. The engine's start is addressed by the id the
  create call returned, which denotes the instance just created: the model addresses it
  by its name.
\<close>

definition createOctoPrintContainer ::
    "faults \<Rightarrow> string \<Rightarrow> string \<Rightarrow> int \<Rightarrow> world \<Rightarrow> world \<times> (error + string)" where
  "createOctoPrintContainer f i dev p w =
     (let portStr = Itoa p;
          containerPort = ''80/tcp'';
          symlinkPath = ''/dev/serial/by-id/'' @ dev
      in case filepath_EvalSymlinks f symlinkPath w of
           (w1, Inl err) \<Rightarrow> (w1, Inl (FailedToResolveDeviceSymlink symlinkPath err))
         | (w1, Inr usb) \<Rightarrow>
             (let config = \<lparr>Image = ''octoprint/octoprint'',
                            ContainerPort = containerPort,
                            HostPort = portStr,
                            MountSource = ''/mnt/storage/octoprint/'' @ i,
                            MountTarget = ''/octoprint'',
                            PathOnHost = usb,
                            PathInContainer = usb,
                            CgroupPermissions = ''rwm'',
                            RestartPolicy = ''unless-stopped''\<rparr>;
                  containerName = ''octoprint-'' @ i
              in case cli_ContainerCreate f containerName config w1 of
                   (w2, Inl err) \<Rightarrow> (w2, Inl (FailedToCreateContainer err))
                 | (w2, Inr u) \<Rightarrow>
                     (case cli_ContainerStart f containerName w2 of
                        (w3, Inl err) \<Rightarrow> (w3, Inl (FailedToStartContainer err))
                      | (w3, Inr u') \<Rightarrow> (w3, Inr containerName))))"

text \<open>
  \<open>CreateNewContainer\<close>. The id is \<open>uuid.New().String()\<close>, drawn outside the
  program: it is an argument here.
\<close>

definition CreateNewContainer ::
    "faults \<Rightarrow> string \<Rightarrow> string \<Rightarrow> world \<Rightarrow> world \<times> (error + string)" where
  "CreateNewContainer f i dev w =
     (case getNextAvailablePort f w of
        (w1, Inl err) \<Rightarrow> (w1, Inl (FailedToGetNextAvailablePort err))
      | (w1, Inr p) \<Rightarrow>
          (let volumePath = ''/mnt/storage/octoprint/'' @ i
           in case os_MkdirAll f volumePath w1 of
                (w2, Inl err) \<Rightarrow> (w2, Inl (FailedToCreateVolumeDirectory err))
              | (w2, Inr u) \<Rightarrow>
                  (case createOctoPrintContainer f i dev p w2 of
                     (w3, Inl err) \<Rightarrow> (w3, Inl err)
                   | (w3, Inr containerName) \<Rightarrow>
                       (case db_Insert f i dev p w3 of
                          (w4, Inl err) \<Rightarrow> (w4, Inl (FailedToInsertNewContainer err))
                        | (w4, Inr u') \<Rightarrow> (w4, Inr containerName)))))"

section \<open>Reconciliation at startup\<close>

text \<open>
  The loop of \<open>RecreateAllContainers\<close> over the cursor. \<open>rows.Next()\<close> may stop the
  iteration early (then \<open>rows.Err()\<close> is set, the third component here); every
  \<open>continue\<close> of the source is a recursive call on the remaining rows.
\<close>

fun recreate_rows ::
    "faults \<Rightarrow> row list \<Rightarrow> world \<Rightarrow> error list \<Rightarrow> world \<times> error list \<times> error option" where
  "recreate_rows f [] w errors = (w, errors, None)"
| "recreate_rows f (r # rs) w errors =
     (if f (RowsNext (row_id r))
      then (issue (RowsNext (row_id r)) w, errors, Some (EnvError (RowsNext (row_id r))))
      else if f (ScanRow (row_id r))
      then recreate_rows f rs (issue (ScanRow (row_id r)) (issue (RowsNext (row_id r)) w))
             (errors @ [FailedToScanRow (EnvError (ScanRow (row_id r)))])
      else
        (let w0 = issue (ScanRow (row_id r)) (issue (RowsNext (row_id r)) w);
             containerName = ''octoprint-'' @ row_id r
         in case cli_ContainerInspect f containerName w0 of
              (w1, Inr containerJSON) \<Rightarrow>
                (if Running containerJSON then recreate_rows f rs w1 errors
                 else
                   (case cli_ContainerStart f containerName w1 of
                      (w2, Inl err) \<Rightarrow>
                        recreate_rows f rs w2
                          (errors @ [FailedToStartExistingContainer containerName err])
                    | (w2, Inr u) \<Rightarrow> recreate_rows f rs w2 errors))
            | (w1, Inl err) \<Rightarrow>
                (case createOctoPrintContainer f (row_id r) (device r) (port r) w1 of
                   (w2, Inl err') \<Rightarrow>
                     recreate_rows f rs w2
                       (errors @ [FailedToCreateContainerNamed containerName err'])
                 | (w2, Inr n) \<Rightarrow> recreate_rows f rs w2 errors)))"

definition RecreateAllContainers :: "faults \<Rightarrow> world \<Rightarrow> world \<times> (error + unit)" where
  "RecreateAllContainers f w =
     (case db_SelectRows f w of
        (w1, Inl err) \<Rightarrow> (w1, Inl (FailedToQueryContainers err))
      | (w1, Inr rows) \<Rightarrow>
          (case recreate_rows f rows w1 [] of
             (w2, errors, Some err) \<Rightarrow> (w2, Inl (ErrorIteratingRows err))
           | (w2, errors, None) \<Rightarrow>
               (if length errors > 0 then (w2, Inl (EncounteredErrors errors))
                else (w2, Inr ()))))"

text \<open>
  The body of that loop for one row the cursor has delivered, on its own: the world
  after the row and the errors the row appends. \<open>recreate_each\<close> runs the body over
  a list of rows, one after the other, and joins the errors.
\<close>

definition recreate_row :: "faults \<Rightarrow> row \<Rightarrow> world \<Rightarrow> world \<times> error list" where
  "recreate_row f r w =
     (if f (ScanRow (row_id r))
      then (issue (ScanRow (row_id r)) (issue (RowsNext (row_id r)) w),
            [FailedToScanRow (EnvError (ScanRow (row_id r)))])
      else
        (let w0 = issue (ScanRow (row_id r)) (issue (RowsNext (row_id r)) w);
             containerName = ''octoprint-'' @ row_id r
         in case cli_ContainerInspect f containerName w0 of
              (w1, Inr containerJSON) \<Rightarrow>
                (if Running containerJSON then (w1, [])
                 else
                   (case cli_ContainerStart f containerName w1 of
                      (w2, Inl err) \<Rightarrow> (w2, [FailedToStartExistingContainer containerName err])
                    | (w2, Inr u) \<Rightarrow> (w2, [])))
            | (w1, Inl err) \<Rightarrow>
                (case createOctoPrintContainer f (row_id r) (device r) (port r) w1 of
                   (w2, Inl err') \<Rightarrow> (w2, [FailedToCreateContainerNamed containerName err'])
                 | (w2, Inr n) \<Rightarrow> (w2, []))))"

fun recreate_each :: "faults \<Rightarrow> row list \<Rightarrow> world \<Rightarrow> world \<times> error list" where
  "recreate_each f [] w = (w, [])"
| "recreate_each f (r # rs) w =
     (case recreate_row f r w of
        (w1, es) \<Rightarrow> (case recreate_each f rs w1 of (w2, es') \<Rightarrow> (w2, es @ es')))"

section \<open>Deleting\<close>

text \<open>
  What a handler sends: the status code and the JSON body (a \<open>fiber.Map\<close>), by shape.
\<close>

record ContainerInfo =
  ID :: string
  Port :: int
  Name :: "string option"
  Device :: string

datatype payload =
    ErrorMsg string
  | ErrorMsgStatus string bool
  | ContainerList "ContainerInfo list"
  | IdOk string
  | IdNameOk string string

datatype response = Response nat payload

text \<open>
  \<open>DeleteContainer\<close> writes a 500 response into the request context when a step
  fails (\<open>Some\<close> of it here) and writes nothing when all steps pass. A failed stop is
  only logged.
\<close>

definition DeleteContainer :: "faults \<Rightarrow> string \<Rightarrow> world \<Rightarrow> world \<times> response option" where
  "DeleteContainer f i w =
     (let containerName = ''octoprint-'' @ i
      in case cli_ContainerStop f containerName w of
           (w1, stopped) \<Rightarrow>
             (case cli_ContainerRemove f containerName w1 of
                (w2, Inl err) \<Rightarrow>
                  (w2, Some (Response 500 (ErrorMsg ''Failed to remove container'')))
              | (w2, Inr u) \<Rightarrow>
                  (case db_Delete f i w2 of
                     (w3, Inl err) \<Rightarrow>
                       (w3, Some (Response 500
                                    (ErrorMsg ''Failed to delete container from database'')))
                   | (w3, Inr u') \<Rightarrow>
                       (let volumePath = ''/mnt/storage/octoprint/'' @ i
                        in case os_RemoveAll f volumePath w3 of
                             (w4, Inl err) \<Rightarrow>
                               (w4, Some (Response 500
                                            (ErrorMsg ''Failed to delete volume directory'')))
                           | (w4, Inr u'') \<Rightarrow> (w4, None)))))"

section \<open>The request handlers\<close>

text \<open>
  A request body that does not parse is \<open>None\<close>. The handlers are the closures
  registered for the routes \<open>/api/getcontainers\<close>, \<open>/api/deletecontainer\<close>,
  \<open>/api/restartcontainer\<close> and \<open>/api/renamecontainer\<close>.
\<close>

fun scan_containers ::
    "faults \<Rightarrow> row list \<Rightarrow> world \<Rightarrow> ContainerInfo list \<Rightarrow>
     world \<times> ContainerInfo list \<times> error option" where
  "scan_containers f [] w cs = (w, cs, None)"
| "scan_containers f (r # rs) w cs =
     (if f (RowsNext (row_id r))
      then (issue (RowsNext (row_id r)) w, cs, Some (EnvError (RowsNext (row_id r))))
      else if f (ScanRow (row_id r))
      then scan_containers f rs (issue (ScanRow (row_id r)) (issue (RowsNext (row_id r)) w)) cs
      else scan_containers f rs (issue (ScanRow (row_id r)) (issue (RowsNext (row_id r)) w))
             (cs @ [\<lparr>ID = row_id r, Port = port r, Name = name r, Device = device r\<rparr>]))"

definition getcontainers_handler :: "faults \<Rightarrow> world \<Rightarrow> world \<times> response" where
  "getcontainers_handler f w =
     (case db_SelectRows f w of
        (w1, Inl err) \<Rightarrow> (w1, Response 500 (ErrorMsg ''Failed to query containers''))
      | (w1, Inr rows) \<Rightarrow>
          (case scan_containers f rows w1 [] of
             (w2, cs, Some err) \<Rightarrow> (w2, Response 500 (ErrorMsg ''Error reading containers''))
           | (w2, cs, None) \<Rightarrow> (w2, Response 200 (ContainerList cs))))"

text \<open>
  The delete handler drops what \<open>DeleteContainer\<close> returns and sends its own body; a
  status that \<open>DeleteContainer\<close> set stays.
\<close>

definition deletecontainer_handler ::
    "faults \<Rightarrow> string option \<Rightarrow> world \<Rightarrow> world \<times> response" where
  "deletecontainer_handler f req w =
     (case req of
        None \<Rightarrow> (w, Response 400 (ErrorMsg ''Invalid request body''))
      | Some i \<Rightarrow>
          (case DeleteContainer f i w of
             (w1, None) \<Rightarrow> (w1, Response 200 (IdOk i))
           | (w1, Some (Response code written)) \<Rightarrow> (w1, Response code (IdOk i))))"

text \<open>The restart handler that only asks the engine to restart.\<close>

definition restartcontainer_handler ::
    "faults \<Rightarrow> string option \<Rightarrow> world \<Rightarrow> world \<times> response" where
  "restartcontainer_handler f req w =
     (case req of
        None \<Rightarrow> (w, Response 400 (ErrorMsg ''Invalid request body''))
      | Some i \<Rightarrow>
          (case cli_ContainerRestart f (''octoprint-'' @ i) w of
             (w1, Inl err) \<Rightarrow> (w1, Response 500 (ErrorMsg ''Failed to restart container''))
           | (w1, Inr u) \<Rightarrow> (w1, Response 200 (IdOk i))))"

text \<open>
  The restart handler that inspects first and recreates an instance that is gone. It
  keeps the status cache \<open>containerStatus\<close> (a Go map from id to bool). It calls
  \<open>utils.CreateOctoPrintContainer\<close> with the configuration directory, a variant of
  \<open>createOctoPrintContainer\<close> whose source is not at hand: it is the argument
  \<open>recreate\<close>.
\<close>

definition restartcontainer_handler_cached ::
    "(string \<Rightarrow> string \<Rightarrow> int \<Rightarrow> world \<Rightarrow> world \<times> (error + string)) \<Rightarrow>
     faults \<Rightarrow> string option \<Rightarrow> (string \<rightharpoonup> bool) \<times> world \<Rightarrow>
     ((string \<rightharpoonup> bool) \<times> world) \<times> response" where
  "restartcontainer_handler_cached recreate f req sw =
     (case sw of (containerStatus, w) \<Rightarrow>
      (case req of
         None \<Rightarrow> ((containerStatus, w), Response 400 (ErrorMsg ''Invalid request body''))
       | Some i \<Rightarrow>
           (let containerName = ''octoprint-'' @ i
            in case cli_ContainerInspect f containerName w of
                 (w1, Inr found) \<Rightarrow>
                   (case cli_ContainerRestart f containerName w1 of
                      (w2, Inl err) \<Rightarrow>
                        ((containerStatus(i \<mapsto> False), w2),
                         Response 500 (ErrorMsgStatus ''Failed to restart container'' False))
                    | (w2, Inr u) \<Rightarrow> ((containerStatus(i \<mapsto> True), w2), Response 200 (IdOk i)))
               | (w1, Inl err) \<Rightarrow>
                   (case db_SelectRow f i w1 of
                      (w2, Inl err') \<Rightarrow>
                        ((containerStatus(i \<mapsto> False), w2),
                         Response 500 (ErrorMsgStatus ''Failed to get container info'' False))
                    | (w2, Inr (dev, p)) \<Rightarrow>
                        (case recreate i dev p w2 of
                           (w3, Inl err'') \<Rightarrow>
                             ((containerStatus(i \<mapsto> False), w3),
                              Response 500
                                (ErrorMsgStatus ''Failed to recreate container'' False))
                         | (w3, Inr n) \<Rightarrow>
                             ((containerStatus(i \<mapsto> True), w3), Response 200 (IdOk i)))))))"

definition renamecontainer_handler ::
    "faults \<Rightarrow> (string \<times> string) option \<Rightarrow> world \<Rightarrow> world \<times> response" where
  "renamecontainer_handler f req w =
     (case req of
        None \<Rightarrow> (w, Response 400 (ErrorMsg ''Invalid request body''))
      | Some (i, n) \<Rightarrow>
          (case db_UpdateName f i n w of
             (w1, Inl err) \<Rightarrow> (w1, Response 500 (ErrorMsg ''Failed to rename container''))
           | (w1, Inr u) \<Rightarrow> (w1, Response 200 (IdNameOk i n))))"

section \<open>Sequences of creations\<close>

text \<open>
  Creations one after the other, each with its own fault oracle, fresh id and device;
  a creation that fails is followed by the next one all the same.
\<close>

fun create_all :: "(faults \<times> string \<times> string) list \<Rightarrow> world \<Rightarrow> world" where
  "create_all [] w = w"
| "create_all ((f, i, dev) # rest) w = create_all rest (fst (CreateNewContainer f i dev w))"

section \<open>Concrete worlds\<close>

text \<open>
  The scenario of the specification: records \<open>A\<close> (device usbA, port 2000) and \<open>B\<close>
  (device usbB, port 2001); the engine holds only the instance of \<open>B\<close>, stopped. Both
  device links resolve.
\<close>

definition no_faults :: faults where
  "no_faults = (\<lambda>c. False)"

definition failing :: "call list \<Rightarrow> faults" where
  "failing cs = (\<lambda>c. c \<in> set cs)"

definition empty_world :: world where
  "empty_world =
     \<lparr>db = [], containers = Map.empty, dirs = {}, symlinks = Map.empty, trace = []\<rparr>"

definition row_A :: row where
  "row_A = \<lparr>row_id = ''A'', device = ''usbA'', port = 2000, name = None\<rparr>"

definition row_B :: row where
  "row_B = \<lparr>row_id = ''B'', device = ''usbB'', port = 2001, name = None\<rparr>"

definition config_B :: container_config where
  "config_B =
     \<lparr>Image = ''octoprint/octoprint'', ContainerPort = ''80/tcp'', HostPort = ''2001'',
      MountSource = ''/mnt/storage/octoprint/B'', MountTarget = ''/octoprint'',
      PathOnHost = ''/dev/ttyUSB1'', PathInContainer = ''/dev/ttyUSB1'',
      CgroupPermissions = ''rwm'', RestartPolicy = ''unless-stopped''\<rparr>"

definition scenario_world :: world where
  "scenario_world =
     \<lparr>db = [row_A, row_B],
      containers = [''octoprint-B'' \<mapsto> \<lparr>Config = config_B, Running = False\<rparr>],
      dirs = {''/mnt/storage/octoprint/A'', ''/mnt/storage/octoprint/B''},
      symlinks = [''/dev/serial/by-id/usbA'' \<mapsto> ''/dev/ttyUSB0'',
                  ''/dev/serial/by-id/usbB'' \<mapsto> ''/dev/ttyUSB1''],
      trace = []\<rparr>"

text \<open>The scenario with the record of \<open>B\<close> gone: its instance has no row.\<close>

definition orphan_world :: world where
  "orphan_world = scenario_world\<lparr>db := [row_A]\<rparr>"

section \<open>Values named in the statements\<close>

text \<open>
  For the statements below: the configuration \<open>createOctoPrintContainer\<close> builds for
  an id, a port and a resolved device path, and the port the allocator returns when its
  query succeeds.
\<close>

definition expected_config :: "string \<Rightarrow> int \<Rightarrow> string \<Rightarrow> container_config" where
  "expected_config i p usb =
     \<lparr>Image = ''octoprint/octoprint'', ContainerPort = ''80/tcp'', HostPort = Itoa p,
      MountSource = ''/mnt/storage/octoprint/'' @ i, MountTarget = ''/octoprint'',
      PathOnHost = usb, PathInContainer = usb,
      CgroupPermissions = ''rwm'', RestartPolicy = ''unless-stopped''\<rparr>"

definition next_port :: "world \<Rightarrow> int" where
  "next_port w = (case sql_max (map port (db w)) of None \<Rightarrow> 2000 | Some m \<Rightarrow> int64_wrap (m + 1))"

text \<open>
  The invariant of the table with room for \<open>k\<close> more allocations: the ports are
  distinct 64-bit integers and neither they nor the baseline reach the last 64-bit
  integer within \<open>k\<close> increments.
\<close>

definition ports_ok :: "nat \<Rightarrow> world \<Rightarrow> bool" where
  "ports_ok k w \<longleftrightarrow>
     distinct (map port (db w)) \<and> 2000 + int k < 2 ^ 63 - 1 \<and>
     list_all (\<lambda>r. - (2 ^ 63) \<le> port r \<and> port r + int k < 2 ^ 63 - 1) (db w)"

text \<open>
  A table with a gap below its largest port, as creations followed by deletions leave
  it: \<open>A\<close> on 2000 and \<open>B\<close> on 2005.
\<close>

definition gap_world :: world where
  "gap_world = scenario_world\<lparr>db := [row_A, row_B\<lparr>port := 2005\<rparr>]\<rparr>"

text \<open>The entry of a listing that a row gives.\<close>

definition container_info :: "row \<Rightarrow> ContainerInfo" where
  "container_info r = \<lparr>ID = row_id r, Port = port r, Name = name r, Device = device r\<rparr>"

text \<open>
  What the body of the reconciliation loop does for a row, by what it finds: the
  instance under the row's name (or none) and the target of the row's device link (or
  none). The result is the instance afterwards, the calls issued and the errors
  appended.
\<close>

definition row_outcome ::
    "faults \<Rightarrow> row \<Rightarrow> container_instance option \<Rightarrow> string option \<Rightarrow>
     container_instance option \<times> call list \<times> error list" where
  "row_outcome f r inst link =
     (let i = row_id r; n = ''octoprint-'' @ i; sp = ''/dev/serial/by-id/'' @ device r;
          cfg = expected_config i (port r) (the link)
      in if f (ScanRow i)
         then (inst, [RowsNext i, ScanRow i], [FailedToScanRow (EnvError (ScanRow i))])
         else if \<not> f (Inspect n) \<and> inst \<noteq> None
         then (if Running (the inst)
               then (inst, [RowsNext i, ScanRow i, Inspect n], [])
               else if f (Start n)
               then (inst, [RowsNext i, ScanRow i, Inspect n, Start n],
                     [FailedToStartExistingContainer n (EnvError (Start n))])
               else (Some ((the inst)\<lparr>Running := True\<rparr>),
                     [RowsNext i, ScanRow i, Inspect n, Start n], []))
         else if f (Readlink sp) \<or> link = None
         then (inst, [RowsNext i, ScanRow i, Inspect n, Readlink sp],
               [FailedToCreateContainerNamed n
                  (FailedToResolveDeviceSymlink sp
                     (if f (Readlink sp) then EnvError (Readlink sp) else NoSuchFile sp))])
         else if f (Create n cfg) \<or> inst \<noteq> None
         then (inst, [RowsNext i, ScanRow i, Inspect n, Readlink sp, Create n cfg],
               [FailedToCreateContainerNamed n
                  (FailedToCreateContainer
                     (if f (Create n cfg) then EnvError (Create n cfg) else NameConflict n))])
         else if f (Start n)
         then (Some \<lparr>Config = cfg, Running = False\<rparr>,
               [RowsNext i, ScanRow i, Inspect n, Readlink sp, Create n cfg, Start n],
               [FailedToCreateContainerNamed n (FailedToStartContainer (EnvError (Start n)))])
         else (Some \<lparr>Config = cfg, Running = True\<rparr>,
               [RowsNext i, ScanRow i, Inspect n, Readlink sp, Create n cfg, Start n], []))"

text \<open>
  The scenario with the instance of \<open>B\<close> running, and the scenario with no device
  link resolving.
\<close>

definition running_world :: world where
  "running_world =
     scenario_world\<lparr>containers := [''octoprint-B'' \<mapsto> \<lparr>Config = config_B, Running = True\<rparr>]\<rparr>"

definition unplugged_world :: world where
  "unplugged_world = scenario_world\<lparr>symlinks := Map.empty\<rparr>"

section \<open>Properties\<close>

lemma sql_max_Max:
  assumes "xs \<noteq> []"
  shows "sql_max xs = Some (Max (set xs))"
proof (cases xs)
  case Nil
  with assms show ?thesis by simp
next
  case (Cons y ys)
  show ?thesis
    unfolding Cons using Max.set_eq_fold [of y ys] by simp
qed

lemma int64_wrap_id: "int64_range x \<Longrightarrow> int64_wrap x = x"
  by (simp add: int64_wrap_def int64_range_def)

lemma getNextAvailablePort_fst: "fst (getNextAvailablePort f w) = issue SelectMaxPort w"
  by (simp add: getNextAvailablePort_def db_SelectMaxPort_def split: option.splits)

lemma getNextAvailablePort_snd:
  "snd (getNextAvailablePort f w) =
     (if f SelectMaxPort then Inl (FailedToQueryMaxPort (EnvError SelectMaxPort))
      else case sql_max (map port (db w)) of
             None \<Rightarrow> Inr 2000
           | Some m \<Rightarrow> Inr (int64_wrap (m + 1)))"
  by (simp add: getNextAvailablePort_def db_SelectMaxPort_def split: option.splits)

subsection \<open>The allocator's value\<close>

text \<open>
  Claim C2. When the query succeeds, \<open>getNextAvailablePort\<close> returns 2000 on an empty
  table and the largest stored port plus one on a table with rows; the result is the
  same for any two tables holding the same set of rows. The ports are 64-bit integers,
  as SQLite stores them, and the largest one is not the last 64-bit integer.
\<close>

theorem getNextAvailablePort_value:
  assumes "\<not> f SelectMaxPort"
  shows "(db w = [] \<longrightarrow> snd (getNextAvailablePort f w) = Inr 2000) \<and>
         (db w \<noteq> [] \<longrightarrow> (\<forall>r\<in>set (db w). int64_range (port r)) \<longrightarrow>
            Max (port ` set (db w)) \<noteq> 2 ^ 63 - 1 \<longrightarrow>
            snd (getNextAvailablePort f w) = Inr (Max (port ` set (db w)) + 1)) \<and>
         (\<forall>w'. set (db w') = set (db w) \<longrightarrow>
            snd (getNextAvailablePort f w') = snd (getNextAvailablePort f w))"
proof (intro conjI impI allI)
  assume "db w = []"
  with assms show "snd (getNextAvailablePort f w) = Inr 2000"
    by (simp add: getNextAvailablePort_snd)
next
  assume ne: "db w \<noteq> []" and rng: "\<forall>r\<in>set (db w). int64_range (port r)"
    and top: "Max (port ` set (db w)) \<noteq> 2 ^ 63 - 1"
  let ?m = "Max (port ` set (db w))"
  have "?m \<in> port ` set (db w)" using ne by (intro Max_in) auto
  with rng have "int64_range ?m" by auto
  with top have "int64_range (?m + 1)" by (simp add: int64_range_def)
  then have "int64_wrap (?m + 1) = ?m + 1" by (rule int64_wrap_id)
  moreover have "sql_max (map port (db w)) = Some ?m"
    using sql_max_Max [of "map port (db w)"] ne by simp
  ultimately show "snd (getNextAvailablePort f w) = Inr (?m + 1)"
    using assms by (simp add: getNextAvailablePort_snd)
next
  fix w' :: world assume eq: "set (db w') = set (db w)"
  have "sql_max (map port (db w')) = sql_max (map port (db w))"
  proof (cases "db w = []")
    case True
    with eq show ?thesis by simp
  next
    case False
    with eq have "db w' \<noteq> []" by auto
    with False eq show ?thesis
      using sql_max_Max [of "map port (db w)"] sql_max_Max [of "map port (db w')"] by simp
  qed
  then show "snd (getNextAvailablePort f w') = snd (getNextAvailablePort f w)"
    by (simp add: getNextAvailablePort_snd)
qed

theorem getNextAvailablePort_value_witness:
  "\<not> no_faults SelectMaxPort \<and> db scenario_world \<noteq> [] \<and>
   list_all (\<lambda>r. int64_range (port r)) (db scenario_world) \<and>
   Max (port ` set (db scenario_world)) \<noteq> 2 ^ 63 - 1 \<and>
   snd (getNextAvailablePort no_faults scenario_world) = Inr 2002 \<and>
   db empty_world = [] \<and>
   snd (getNextAvailablePort no_faults empty_world) = Inr 2000 \<and>
   set (db (scenario_world\<lparr>db := [row_B, row_A]\<rparr>)) = set (db scenario_world) \<and>
   snd (getNextAvailablePort no_faults (scenario_world\<lparr>db := [row_B, row_A]\<rparr>)) = Inr 2002"
proof -
  have nf: "\<not> no_faults SelectMaxPort" by (simp add: no_faults_def)
  have a: "db scenario_world \<noteq> []" by (simp add: scenario_world_def)
  have b: "\<forall>r\<in>set (db scenario_world). int64_range (port r)"
    by (simp add: scenario_world_def row_A_def row_B_def int64_range_def)
  have m: "Max (port ` set (db scenario_world)) = 2001"
    by (simp add: scenario_world_def row_A_def row_B_def)
  have c: "Max (port ` set (db scenario_world)) \<noteq> 2 ^ 63 - 1" unfolding m by simp
  have e: "db empty_world = []" by (simp add: empty_world_def)
  have s: "set (db (scenario_world\<lparr>db := [row_B, row_A]\<rparr>)) = set (db scenario_world)"
    by (auto simp add: scenario_world_def)
  note main = getNextAvailablePort_value [of no_faults scenario_world, OF nf]
  from main a b c have v1: "snd (getNextAvailablePort no_faults scenario_world) = Inr (Max (port ` set (db scenario_world)) + 1)"
    by blast
  from main s have v3: "snd (getNextAvailablePort no_faults (scenario_world\<lparr>db := [row_B, row_A]\<rparr>)) = snd (getNextAvailablePort no_faults scenario_world)"
    by blast
  from getNextAvailablePort_value [of no_faults empty_world, OF nf] e
  have v2: "snd (getNextAvailablePort no_faults empty_world) = Inr 2000" by blast
  have v1': "snd (getNextAvailablePort no_faults scenario_world) = Inr 2002"
    unfolding v1 m by simp
  from b have b': "list_all (\<lambda>r. int64_range (port r)) (db scenario_world)"
    by (simp add: list_all_iff)
  show ?thesis
    using nf a b' c e s v2 v1' v3 by (intro conjI) simp_all
qed

lemma issue_simps [simp]:
  "db (issue c w) = db w" "containers (issue c w) = containers w"
  "dirs (issue c w) = dirs w" "symlinks (issue c w) = symlinks w"
  "trace (issue c w) = trace w @ [c]"
  by (simp_all add: issue_def)

subsection \<open>Renaming\<close>

text \<open>
  Claim C9. The rename handler changes nothing but the \<open>name\<close> of the rows with the
  given id (and only when the update succeeds): every row keeps its id, device and port,
  the rows of other ids are the same, the engine and the file system are as before, and
  the one call issued is the \<open>UPDATE\<close>: no runtime call at all.
\<close>

theorem renamecontainer_handler_frame:
  fixes f i n w
  defines "w' \<equiv> fst (renamecontainer_handler f (Some (i, n)) w)"
  shows "length (db w') = length (db w) \<and>
         (\<forall>k < length (db w).
            db w' ! k = (if row_id (db w ! k) = i \<and> \<not> f (UpdateName i)
                         then (db w ! k)\<lparr>name := Some n\<rparr> else db w ! k) \<and>
            row_id (db w' ! k) = row_id (db w ! k) \<and>
            device (db w' ! k) = device (db w ! k) \<and>
            port (db w' ! k) = port (db w ! k)) \<and>
         containers w' = containers w \<and> dirs w' = dirs w \<and> symlinks w' = symlinks w \<and>
         trace w' = trace w @ [UpdateName i]"
  unfolding w'_def
  by (simp add: renamecontainer_handler_def db_UpdateName_def)

theorem renamecontainer_handler_frame_witness:
  "db (fst (renamecontainer_handler no_faults (Some (''A'', ''Printer-1'')) scenario_world)) ! 0
     = row_A\<lparr>name := Some ''Printer-1''\<rparr> \<and>
   db (fst (renamecontainer_handler no_faults (Some (''A'', ''Printer-1'')) scenario_world)) ! 1
     = row_B \<and>
   containers (fst (renamecontainer_handler no_faults (Some (''A'', ''Printer-1'')) scenario_world))
     = containers scenario_world \<and>
   trace (fst (renamecontainer_handler no_faults (Some (''A'', ''Printer-1'')) scenario_world))
     = [UpdateName ''A'']"
proof -
  have l: "length (db scenario_world) = 2" "db scenario_world ! 0 = row_A"
    "db scenario_world ! 1 = row_B" "trace scenario_world = []"
    by (simp_all add: scenario_world_def)
  have r: "row_id row_A = ''A''" "row_id row_B = ''B''" "\<not> no_faults (UpdateName ''A'')"
    by (simp_all add: row_A_def row_B_def no_faults_def)
  note t = renamecontainer_handler_frame [of no_faults "''A''" "''Printer-1''" scenario_world]
  from t l have "db (fst (renamecontainer_handler no_faults (Some (''A'', ''Printer-1'')) scenario_world)) ! 0
     = (if row_id (db scenario_world ! 0) = ''A'' \<and> \<not> no_faults (UpdateName ''A'')
                         then (db scenario_world ! 0)\<lparr>name := Some ''Printer-1''\<rparr> else db scenario_world ! 0)"
    by simp
  moreover from t l have "db (fst (renamecontainer_handler no_faults (Some (''A'', ''Printer-1'')) scenario_world)) ! 1
     = (if row_id (db scenario_world ! 1) = ''A'' \<and> \<not> no_faults (UpdateName ''A'')
                         then (db scenario_world ! 1)\<lparr>name := Some ''Printer-1''\<rparr> else db scenario_world ! 1)"
    by simp
  ultimately show ?thesis using t l r by simp
qed

subsection \<open>Frames of the collaborators\<close>

lemma db_SelectMaxPort_fst [simp]: "fst (db_SelectMaxPort f w) = issue SelectMaxPort w"
  by (simp add: db_SelectMaxPort_def)

lemma db_SelectRows_fst [simp]: "fst (db_SelectRows f w) = issue SelectRows w"
  by (simp add: db_SelectRows_def)

lemma db_SelectRow_fst [simp]: "fst (db_SelectRow f i w) = issue (SelectRow i) w"
  by (simp add: db_SelectRow_def split: option.splits)

lemma filepath_EvalSymlinks_fst [simp]: "fst (filepath_EvalSymlinks f p w) = issue (Readlink p) w"
  by (simp add: filepath_EvalSymlinks_def split: option.splits)

lemma cli_ContainerInspect_fst [simp]: "fst (cli_ContainerInspect f n w) = issue (Inspect n) w"
  by (simp add: cli_ContainerInspect_def split: option.splits)

lemma db_Insert_frame [simp]:
  "containers (fst (db_Insert f i d p w)) = containers w"
  "dirs (fst (db_Insert f i d p w)) = dirs w"
  "symlinks (fst (db_Insert f i d p w)) = symlinks w"
  "trace (fst (db_Insert f i d p w)) = trace w @ [InsertRow i]"
  by (simp_all add: db_Insert_def)

lemma db_Delete_frame [simp]:
  "containers (fst (db_Delete f i w)) = containers w"
  "dirs (fst (db_Delete f i w)) = dirs w"
  "symlinks (fst (db_Delete f i w)) = symlinks w"
  "trace (fst (db_Delete f i w)) = trace w @ [DeleteRow i]"
  by (simp_all add: db_Delete_def)

lemma db_Delete_db:
  "db (fst (db_Delete f i w)) =
     (if isl (snd (db_Delete f i w)) then db w else filter (\<lambda>r. row_id r \<noteq> i) (db w))"
  by (simp add: db_Delete_def)

lemma os_MkdirAll_frame [simp]:
  "db (fst (os_MkdirAll f p w)) = db w"
  "containers (fst (os_MkdirAll f p w)) = containers w"
  "symlinks (fst (os_MkdirAll f p w)) = symlinks w"
  "trace (fst (os_MkdirAll f p w)) = trace w @ [Mkdir p]"
  by (simp_all add: os_MkdirAll_def)

lemma os_RemoveAll_frame [simp]:
  "db (fst (os_RemoveAll f p w)) = db w"
  "containers (fst (os_RemoveAll f p w)) = containers w"
  "symlinks (fst (os_RemoveAll f p w)) = symlinks w"
  "trace (fst (os_RemoveAll f p w)) = trace w @ [Rmdir p]"
  by (simp_all add: os_RemoveAll_def)

lemma cli_ContainerCreate_frame [simp]:
  "db (fst (cli_ContainerCreate f n cfg w)) = db w"
  "dirs (fst (cli_ContainerCreate f n cfg w)) = dirs w"
  "symlinks (fst (cli_ContainerCreate f n cfg w)) = symlinks w"
  "trace (fst (cli_ContainerCreate f n cfg w)) = trace w @ [Create n cfg]"
  by (simp_all add: cli_ContainerCreate_def split: option.splits)

lemma cli_ContainerStart_frame [simp]:
  "db (fst (cli_ContainerStart f n w)) = db w"
  "dirs (fst (cli_ContainerStart f n w)) = dirs w"
  "symlinks (fst (cli_ContainerStart f n w)) = symlinks w"
  "trace (fst (cli_ContainerStart f n w)) = trace w @ [Start n]"
  by (simp_all add: cli_ContainerStart_def split: option.splits)

lemma cli_ContainerStop_frame [simp]:
  "db (fst (cli_ContainerStop f n w)) = db w"
  "dirs (fst (cli_ContainerStop f n w)) = dirs w"
  "symlinks (fst (cli_ContainerStop f n w)) = symlinks w"
  "trace (fst (cli_ContainerStop f n w)) = trace w @ [Stop n]"
  by (simp_all add: cli_ContainerStop_def split: option.splits)

lemma cli_ContainerRemove_frame [simp]:
  "db (fst (cli_ContainerRemove f n w)) = db w"
  "dirs (fst (cli_ContainerRemove f n w)) = dirs w"
  "symlinks (fst (cli_ContainerRemove f n w)) = symlinks w"
  "trace (fst (cli_ContainerRemove f n w)) = trace w @ [Remove n]"
  by (simp_all add: cli_ContainerRemove_def split: option.splits)

lemma cli_ContainerRestart_frame [simp]:
  "db (fst (cli_ContainerRestart f n w)) = db w"
  "dirs (fst (cli_ContainerRestart f n w)) = dirs w"
  "symlinks (fst (cli_ContainerRestart f n w)) = symlinks w"
  "trace (fst (cli_ContainerRestart f n w)) = trace w @ [Restart n]"
  by (simp_all add: cli_ContainerRestart_def split: option.splits)

lemma DeleteContainer_unfold:
  "DeleteContainer f i w =
     (let n = ''octoprint-'' @ i;
          w1 = fst (cli_ContainerStop f n w);
          w2 = fst (cli_ContainerRemove f n w1);
          w3 = fst (db_Delete f i w2);
          w4 = fst (os_RemoveAll f (''/mnt/storage/octoprint/'' @ i) w3)
      in if isl (snd (cli_ContainerRemove f n w1))
         then (w2, Some (Response 500 (ErrorMsg ''Failed to remove container'')))
         else if isl (snd (db_Delete f i w2))
         then (w3, Some (Response 500 (ErrorMsg ''Failed to delete container from database'')))
         else if isl (snd (os_RemoveAll f (''/mnt/storage/octoprint/'' @ i) w3))
         then (w4, Some (Response 500 (ErrorMsg ''Failed to delete volume directory'')))
         else (w4, None))"
  unfolding DeleteContainer_def Let_def
  by (simp split: prod.splits sum.splits)

lemma DeleteContainer_db:
  "db (fst (DeleteContainer f i w)) =
     (if snd (DeleteContainer f i w) = Some (Response 500 (ErrorMsg ''Failed to remove container''))
         \<or> snd (DeleteContainer f i w) = Some (Response 500 (ErrorMsg ''Failed to delete container from database''))
      then db w else filter (\<lambda>r. row_id r \<noteq> i) (db w))"
  unfolding DeleteContainer_unfold Let_def
  by (simp add: db_Delete_db)

subsection \<open>Deleting, then listing\<close>

lemma scan_containers_ids:
  "scan_containers f rows w cs = (w', cs', e) \<Longrightarrow> ID ` set cs' \<subseteq> ID ` set cs \<union> row_id ` set rows"
proof (induction rows arbitrary: w cs)
  case Nil
  then show ?case by auto
next
  case (Cons r rows)
  show ?case
  proof (cases "f (RowsNext (row_id r))")
    case True
    with Cons.prems have "cs' = cs" by simp
    then show ?thesis by auto
  next
    case False
    show ?thesis
    proof (cases "f (ScanRow (row_id r))")
      case True
      with False Cons.prems
      have "scan_containers f rows (issue (ScanRow (row_id r)) (issue (RowsNext (row_id r)) w)) cs
              = (w', cs', e)"
        by simp
      from Cons.IH [OF this] show ?thesis by auto
    next
      case s: False
      with False Cons.prems
      have "scan_containers f rows (issue (ScanRow (row_id r)) (issue (RowsNext (row_id r)) w))
             (cs @ [\<lparr>ID = row_id r, Port = port r, Name = name r, Device = device r\<rparr>]) = (w', cs', e)"
        by simp
      from Cons.IH [OF this] show ?thesis by auto
    qed
  qed
qed


lemma getcontainers_handler_ids:
  assumes "snd (getcontainers_handler f w) = Response code (ContainerList cs)"
  shows "ID ` set cs \<subseteq> row_id ` set (db w)"
proof (cases "f SelectRows")
  case True
  with assms show ?thesis by (simp add: getcontainers_handler_def db_SelectRows_def)
next
  case False
  obtain w2 cs2 e where sc: "scan_containers f (db w) (issue SelectRows w) [] = (w2, cs2, e)"
    using prod_cases3 by blast
  with assms False have "cs2 = cs"
    by (simp add: getcontainers_handler_def db_SelectRows_def split: option.splits)
  with scan_containers_ids [OF sc] show ?thesis by simp
qed


lemma scan_containers_snd:
  "snd (scan_containers f rows w cs) = snd (scan_containers f rows w2 cs)"
proof (induction rows arbitrary: w w2 cs)
  case Nil
  show ?case by simp
next
  case (Cons r rows)
  show ?case
  proof (cases "f (RowsNext (row_id r))")
    case True
    then show ?thesis by simp
  next
    case False
    show ?thesis
    proof (cases "f (ScanRow (row_id r))")
      case True
      with False Cons.IH [of "issue (ScanRow (row_id r)) (issue (RowsNext (row_id r)) w)"
                             cs "issue (ScanRow (row_id r)) (issue (RowsNext (row_id r)) w2)"]
      show ?thesis by simp
    next
      case s: False
      with False Cons.IH [of "issue (ScanRow (row_id r)) (issue (RowsNext (row_id r)) w)"
                             "cs @ [\<lparr>ID = row_id r, Port = port r, Name = name r, Device = device r\<rparr>]"
                             "issue (ScanRow (row_id r)) (issue (RowsNext (row_id r)) w2)"]
      show ?thesis by simp
    qed
  qed
qed

lemma getcontainers_handler_db:
  assumes "db w2 = db w"
  shows "snd (getcontainers_handler f w2) = snd (getcontainers_handler f w)"
proof (cases "f SelectRows")
  case True
  then show ?thesis by (simp add: getcontainers_handler_def db_SelectRows_def)
next
  case False
  have "snd (scan_containers f (db w) (issue SelectRows w2) []) =
        snd (scan_containers f (db w) (issue SelectRows w) [])"
    by (rule scan_containers_snd)
  then have "\<exists>a b cs e. scan_containers f (db w) (issue SelectRows w2) [] = (a, cs, e) \<and>
                        scan_containers f (db w) (issue SelectRows w) [] = (b, cs, e)"
    by (metis prod.collapse)
  then obtain a b cs e where
    "scan_containers f (db w) (issue SelectRows w2) [] = (a, cs, e)"
    "scan_containers f (db w) (issue SelectRows w) [] = (b, cs, e)"
    by blast
  with False assms show ?thesis
    by (simp add: getcontainers_handler_def db_SelectRows_def split: option.splits)
qed

lemma scan_containers_all:
  assumes "\<forall>x\<in>set rows. \<not> f (RowsNext (row_id x)) \<and> \<not> f (ScanRow (row_id x))"
  shows "snd (scan_containers f rows w cs) = (cs @ map container_info rows, None)"
  using assms
proof (induction rows arbitrary: w cs)
  case Nil
  show ?case by simp
next
  case (Cons r rows)
  from Cons.prems have a: "\<not> f (RowsNext (row_id r))" "\<not> f (ScanRow (row_id r))"
    and rest: "\<forall>x\<in>set rows. \<not> f (RowsNext (row_id x)) \<and> \<not> f (ScanRow (row_id x))"
    by simp_all
  from a Cons.IH [OF rest] show ?case by (simp add: container_info_def)
qed

lemma getcontainers_handler_all:
  assumes "\<not> f SelectRows"
    and "\<forall>x\<in>set (db w). \<not> f (RowsNext (row_id x)) \<and> \<not> f (ScanRow (row_id x))"
  shows "snd (getcontainers_handler f w) = Response 200 (ContainerList (map container_info (db w)))"
proof -
  from scan_containers_all [OF assms(2), of "issue SelectRows w" "[]"]
  obtain a where "scan_containers f (db w) (issue SelectRows w) [] = (a, map container_info (db w), None)"
    by (metis append_Nil prod.collapse)
  with assms(1) show ?thesis
    by (simp add: getcontainers_handler_def db_SelectRows_def)
qed

lemma cli_ContainerStop_present:
  "containers (fst (cli_ContainerStop f n w)) n = None \<longleftrightarrow> containers w n = None"
  by (simp add: cli_ContainerStop_def split: option.splits)

lemma cli_ContainerRemove_isl:
  "isl (snd (cli_ContainerRemove f n w)) \<longleftrightarrow> f (Remove n) \<or> containers w n = None"
  by (simp add: cli_ContainerRemove_def split: option.splits)

lemma cli_ContainerRemove_failed:
  "isl (snd (cli_ContainerRemove f n w)) \<Longrightarrow>
   fst (cli_ContainerRemove f n w) = w\<lparr>trace := trace w @ [Remove n]\<rparr>"
  by (simp add: cli_ContainerRemove_def issue_def split: option.splits if_splits)

lemma DeleteContainer_remove_failed_iff:
  "snd (DeleteContainer f i w) = Some (Response 500 (ErrorMsg ''Failed to remove container''))
     \<longleftrightarrow> f (Remove (''octoprint-'' @ i)) \<or> containers w (''octoprint-'' @ i) = None"
  unfolding DeleteContainer_unfold Let_def
  by (simp add: cli_ContainerRemove_isl cli_ContainerStop_present)

lemma DeleteContainer_remove_failed_frame:
  assumes "snd (DeleteContainer f i w) = Some (Response 500 (ErrorMsg ''Failed to remove container''))"
  shows "db (fst (DeleteContainer f i w)) = db w"
    and "dirs (fst (DeleteContainer f i w)) = dirs w"
    and "trace (fst (DeleteContainer f i w)) =
           trace w @ [Stop (''octoprint-'' @ i), Remove (''octoprint-'' @ i)]"
proof -
  from assms have r: "isl (snd (cli_ContainerRemove f (''octoprint-'' @ i)
                                  (fst (cli_ContainerStop f (''octoprint-'' @ i) w))))"
    unfolding DeleteContainer_remove_failed_iff cli_ContainerRemove_isl cli_ContainerStop_present .
  then have w': "fst (DeleteContainer f i w) =
                   fst (cli_ContainerRemove f (''octoprint-'' @ i)
                          (fst (cli_ContainerStop f (''octoprint-'' @ i) w)))"
    unfolding DeleteContainer_unfold Let_def by simp
  show "db (fst (DeleteContainer f i w)) = db w" unfolding w' by simp
  show "dirs (fst (DeleteContainer f i w)) = dirs w" unfolding w' by simp
  show "trace (fst (DeleteContainer f i w)) =
           trace w @ [Stop (''octoprint-'' @ i), Remove (''octoprint-'' @ i)]"
    unfolding w' by simp
qed

text \<open>
  Claim C5, as the code has it. When \<open>DeleteContainer\<close> reports neither a failed
  removal of the instance nor a failed deletion of the row, no listing taken afterwards
  holds the id, whatever the stop step and the removal of the directory did. The
  removal of the instance fails exactly when the engine refuses it or no instance of
  that name exists; \<open>DeleteContainer\<close> then returns after the stop and the removal
  calls: the table and the directories are as before, every listing answers as it did
  before the delete, and a listing that reads all rows still shows every row of the
  table, the one of the id included.
\<close>

theorem DeleteContainer_then_list:
  fixes f i w
  defines "w' \<equiv> fst (DeleteContainer f i w)"
    and "out \<equiv> snd (DeleteContainer f i w)"
    and "n \<equiv> ''octoprint-'' @ i"
  shows "(out \<noteq> Some (Response 500 (ErrorMsg ''Failed to remove container'')) \<and>
          out \<noteq> Some (Response 500 (ErrorMsg ''Failed to delete container from database'')) \<longrightarrow>
            (\<forall>f' code cs. snd (getcontainers_handler f' w') = Response code (ContainerList cs) \<longrightarrow>
                          i \<notin> ID ` set cs)) \<and>
         (out = Some (Response 500 (ErrorMsg ''Failed to remove container''))
            \<longleftrightarrow> f (Remove n) \<or> containers w n = None) \<and>
         (out = Some (Response 500 (ErrorMsg ''Failed to remove container'')) \<longrightarrow>
            db w' = db w \<and> dirs w' = dirs w \<and> trace w' = trace w @ [Stop n, Remove n] \<and>
            (\<forall>f'. snd (getcontainers_handler f' w') = snd (getcontainers_handler f' w)) \<and>
            (\<forall>f'. \<not> f' SelectRows \<and>
                  (\<forall>x\<in>set (db w). \<not> f' (RowsNext (row_id x)) \<and> \<not> f' (ScanRow (row_id x))) \<longrightarrow>
                  snd (getcontainers_handler f' w') =
                    Response 200 (ContainerList (map container_info (db w)))))"
proof (intro conjI)
  show "out \<noteq> Some (Response 500 (ErrorMsg ''Failed to remove container'')) \<and>
          out \<noteq> Some (Response 500 (ErrorMsg ''Failed to delete container from database'')) \<longrightarrow>
            (\<forall>f' code cs. snd (getcontainers_handler f' w') = Response code (ContainerList cs) \<longrightarrow>
                          i \<notin> ID ` set cs)"
  proof (intro impI allI)
    fix f' code cs
    assume o: "out \<noteq> Some (Response 500 (ErrorMsg ''Failed to remove container'')) \<and>
          out \<noteq> Some (Response 500 (ErrorMsg ''Failed to delete container from database''))"
      and l: "snd (getcontainers_handler f' w') = Response code (ContainerList cs)"
    have "db w' = filter (\<lambda>r. row_id r \<noteq> i) (db w)"
      using o unfolding w'_def out_def DeleteContainer_db [of f i w]
      by (simp only: if_False simp_thms)
    with getcontainers_handler_ids [OF l] show "i \<notin> ID ` set cs" by auto
  qed
next
  show "out = Some (Response 500 (ErrorMsg ''Failed to remove container''))
            \<longleftrightarrow> f (Remove n) \<or> containers w n = None"
    unfolding out_def n_def by (rule DeleteContainer_remove_failed_iff)
next
  show "out = Some (Response 500 (ErrorMsg ''Failed to remove container'')) \<longrightarrow>
            db w' = db w \<and> dirs w' = dirs w \<and> trace w' = trace w @ [Stop n, Remove n] \<and>
            (\<forall>f'. snd (getcontainers_handler f' w') = snd (getcontainers_handler f' w)) \<and>
            (\<forall>f'. \<not> f' SelectRows \<and>
                  (\<forall>x\<in>set (db w). \<not> f' (RowsNext (row_id x)) \<and> \<not> f' (ScanRow (row_id x))) \<longrightarrow>
                  snd (getcontainers_handler f' w') =
                    Response 200 (ContainerList (map container_info (db w))))"
  proof
    assume "out = Some (Response 500 (ErrorMsg ''Failed to remove container''))"
    then have o: "snd (DeleteContainer f i w) = Some (Response 500 (ErrorMsg ''Failed to remove container''))"
      unfolding out_def .
    note fr = DeleteContainer_remove_failed_frame [OF o]
    have d: "db w' = db w" unfolding w'_def by (rule fr(1))
    have same: "\<forall>f'. snd (getcontainers_handler f' w') = snd (getcontainers_handler f' w)"
      using getcontainers_handler_db [OF d] by blast
    have listed: "\<forall>f'. \<not> f' SelectRows \<and>
                  (\<forall>x\<in>set (db w). \<not> f' (RowsNext (row_id x)) \<and> \<not> f' (ScanRow (row_id x))) \<longrightarrow>
                  snd (getcontainers_handler f' w') =
                    Response 200 (ContainerList (map container_info (db w)))"
    proof (intro allI impI)
      fix f' assume a: "\<not> f' SelectRows \<and>
                  (\<forall>x\<in>set (db w). \<not> f' (RowsNext (row_id x)) \<and> \<not> f' (ScanRow (row_id x)))"
      then have "snd (getcontainers_handler f' w) = Response 200 (ContainerList (map container_info (db w)))"
        using getcontainers_handler_all [of f' w] by blast
      with same show "snd (getcontainers_handler f' w') =
                    Response 200 (ContainerList (map container_info (db w)))" by simp
    qed
    from d fr(2,3) same listed
    show "db w' = db w \<and> dirs w' = dirs w \<and> trace w' = trace w @ [Stop n, Remove n] \<and>
            (\<forall>f'. snd (getcontainers_handler f' w') = snd (getcontainers_handler f' w)) \<and>
            (\<forall>f'. \<not> f' SelectRows \<and>
                  (\<forall>x\<in>set (db w). \<not> f' (RowsNext (row_id x)) \<and> \<not> f' (ScanRow (row_id x))) \<longrightarrow>
                  snd (getcontainers_handler f' w') =
                    Response 200 (ContainerList (map container_info (db w))))"
      unfolding w'_def n_def by blast
  qed
qed

lemma scenario_world_simps:
  "db scenario_world = [row_A, row_B]"
  "containers scenario_world ''octoprint-A'' = None"
  "containers scenario_world ''octoprint-B'' = Some \<lparr>Config = config_B, Running = False\<rparr>"
  "trace scenario_world = []"
  "symlinks scenario_world ''/dev/serial/by-id/usbA'' = Some ''/dev/ttyUSB0''"
  "symlinks scenario_world ''/dev/serial/by-id/usbB'' = Some ''/dev/ttyUSB1''"
  "symlinks scenario_world ''/dev/serial/by-id/usbC'' = None"
  by (simp_all add: scenario_world_def)

lemma DeleteContainer_B:
  "DeleteContainer (failing [Stop ''octoprint-B'']) ''B'' scenario_world =
     (scenario_world\<lparr>db := [row_A], containers := (containers scenario_world)(''octoprint-B'' := None),
        dirs := dirs scenario_world - {''/mnt/storage/octoprint/B''},
        trace := [Stop ''octoprint-B'', Remove ''octoprint-B'', DeleteRow ''B'',
                  Rmdir ''/mnt/storage/octoprint/B'']\<rparr>, None)"
  by (simp add: DeleteContainer_def cli_ContainerStop_def cli_ContainerRemove_def db_Delete_def
        os_RemoveAll_def failing_def scenario_world_simps issue_def row_A_def row_B_def Let_def)


theorem DeleteContainer_then_list_witness:
  "snd (DeleteContainer (failing [Stop ''octoprint-B'']) ''B'' scenario_world) = None \<and>
   snd (getcontainers_handler no_faults
          (fst (DeleteContainer (failing [Stop ''octoprint-B'']) ''B'' scenario_world)))
     = Response 200 (ContainerList [\<lparr>ID = ''A'', Port = 2000, Name = None, Device = ''usbA''\<rparr>]) \<and>
   ''B'' \<notin> ID ` set [\<lparr>ID = ''A'', Port = 2000, Name = None, Device = ''usbA''\<rparr>] \<and>
   containers scenario_world ''octoprint-A'' = None \<and>
   snd (DeleteContainer no_faults ''A'' scenario_world)
     = Some (Response 500 (ErrorMsg ''Failed to remove container'')) \<and>
   db (fst (DeleteContainer no_faults ''A'' scenario_world)) = [row_A, row_B] \<and>
   snd (getcontainers_handler no_faults (fst (DeleteContainer no_faults ''A'' scenario_world)))
     = Response 200 (ContainerList [container_info row_A, container_info row_B])"
proof -
  let ?f = "failing [Stop ''octoprint-B'']"
  have d: "snd (DeleteContainer ?f ''B'' scenario_world) = None"
    by (simp add: DeleteContainer_B)
  have g: "snd (getcontainers_handler no_faults (fst (DeleteContainer ?f ''B'' scenario_world)))
     = Response 200 (ContainerList [\<lparr>ID = ''A'', Port = 2000, Name = None, Device = ''usbA''\<rparr>])"
    by (simp add: DeleteContainer_B getcontainers_handler_def
        db_SelectRows_def no_faults_def row_A_def)
  have n1: "snd (DeleteContainer ?f ''B'' scenario_world)
              \<noteq> Some (Response 500 (ErrorMsg ''Failed to remove container'')) \<and>
            snd (DeleteContainer ?f ''B'' scenario_world)
              \<noteq> Some (Response 500 (ErrorMsg ''Failed to delete container from database''))"
    unfolding d by simp
  note tB = DeleteContainer_then_list [of ?f "''B''" scenario_world]
  from tB n1 g have nb: "''B'' \<notin> ID ` set [\<lparr>ID = ''A'', Port = 2000, Name = None, Device = ''usbA''\<rparr>]"
    by blast
  have a: "containers scenario_world (''octoprint-'' @ ''A'') = None"
    by (simp add: scenario_world_simps)
  note tA = DeleteContainer_then_list [of no_faults "''A''" scenario_world]
  from tA a have o: "snd (DeleteContainer no_faults ''A'' scenario_world)
     = Some (Response 500 (ErrorMsg ''Failed to remove container''))"
    by blast
  have nf: "\<not> no_faults SelectRows \<and>
            (\<forall>x\<in>set (db scenario_world). \<not> no_faults (RowsNext (row_id x)) \<and> \<not> no_faults (ScanRow (row_id x)))"
    by (simp add: no_faults_def)
  from tA o have db: "db (fst (DeleteContainer no_faults ''A'' scenario_world)) = db scenario_world"
    by blast
  from tA o nf have l: "snd (getcontainers_handler no_faults (fst (DeleteContainer no_faults ''A'' scenario_world)))
     = Response 200 (ContainerList (map container_info (db scenario_world)))"
    by blast
  from d g nb a o db l show ?thesis by (simp add: scenario_world_simps)
qed

text \<open>
  Claim C5 as stated fails: record \<open>A\<close> has no instance, so stop and removal fail,
  the delete returns, and the listing still holds \<open>A\<close>.
\<close>

theorem DeleteContainer_then_list_counterexample:
  "snd (DeleteContainer no_faults ''A'' scenario_world)
     = Some (Response 500 (ErrorMsg ''Failed to remove container'')) \<and>
   snd (getcontainers_handler no_faults (fst (DeleteContainer no_faults ''A'' scenario_world)))
     = Response 200 (ContainerList
         [\<lparr>ID = ''A'', Port = 2000, Name = None, Device = ''usbA''\<rparr>,
          \<lparr>ID = ''B'', Port = 2001, Name = None, Device = ''usbB''\<rparr>])"
proof -
  have "DeleteContainer no_faults ''A'' scenario_world =
     (scenario_world\<lparr>trace := [Stop ''octoprint-A'', Remove ''octoprint-A'']\<rparr>,
      Some (Response 500 (ErrorMsg ''Failed to remove container'')))"
    by (simp add: DeleteContainer_def cli_ContainerStop_def cli_ContainerRemove_def
        no_faults_def scenario_world_simps issue_def Let_def)
  then show ?thesis
    by (simp add: getcontainers_handler_def db_SelectRows_def no_faults_def
        scenario_world_simps row_A_def row_B_def)
qed

subsection \<open>Restarting an identity without a record\<close>

lemma find_None_row: "i \<notin> row_id ` set rows \<Longrightarrow> find (\<lambda>r. row_id r = i) rows = None"
  by (induction rows) auto

lemma cli_ContainerRestart_eq:
  "cli_ContainerRestart f n w =
     (if f (Restart n) then (w\<lparr>trace := trace w @ [Restart n]\<rparr>, Inl (EnvError (Restart n)))
      else case containers w n of
             None \<Rightarrow> (w\<lparr>trace := trace w @ [Restart n]\<rparr>, Inl (NoSuchContainer n))
           | Some c \<Rightarrow> (w\<lparr>containers := (containers w)(n \<mapsto> c\<lparr>Running := True\<rparr>),
                           trace := trace w @ [Restart n]\<rparr>, Inr ()))"
  by (simp add: cli_ContainerRestart_def issue_def split: option.splits)

lemma cli_ContainerInspect_eq:
  "cli_ContainerInspect f n w =
     (w\<lparr>trace := trace w @ [Inspect n]\<rparr>,
      if f (Inspect n) then Inl (EnvError (Inspect n))
      else case containers w n of None \<Rightarrow> Inl (NoSuchContainer n) | Some c \<Rightarrow> Inr c)"
  by (simp add: cli_ContainerInspect_def issue_def split: option.splits)

lemma db_SelectRow_unknown:
  assumes "i \<notin> row_id ` set (db w)"
  shows "db_SelectRow f i w =
           (w\<lparr>trace := trace w @ [SelectRow i]\<rparr>,
            Inl (if f (SelectRow i) then EnvError (SelectRow i) else NoRows))"
  using find_None_row [OF assms] by (simp add: db_SelectRow_def issue_def)

text \<open>
  Claim C7, as the code has it. For an identity with no row, the plain restart handler
  issues one restart call: it answers 500 and changes nothing when the engine refuses
  the call or holds no instance of the derived name, and otherwise restarts the
  instance and answers with success, never reading the table. The handler with the
  cache inspects first: when the inspection fails or finds no instance it looks the
  row up, finds none, answers 500 and changes no instance (the recreation is never
  reached); when the inspection finds an instance it issues the restart without
  reading the table, and answers with success or, when the engine refuses, with 500.
\<close>

theorem restart_unknown_identity:
  fixes f i w recreate st
  defines "n \<equiv> ''octoprint-'' @ i"
  assumes "i \<notin> row_id ` set (db w)"
  shows "restartcontainer_handler f (Some i) w =
           (if f (Restart n) \<or> containers w n = None
            then (w\<lparr>trace := trace w @ [Restart n]\<rparr>,
                  Response 500 (ErrorMsg ''Failed to restart container''))
            else (w\<lparr>containers := (containers w)(n \<mapsto> (the (containers w n))\<lparr>Running := True\<rparr>),
                     trace := trace w @ [Restart n]\<rparr>,
                  Response 200 (IdOk i))) \<and>
         restartcontainer_handler_cached recreate f (Some i) (st, w) =
           (if f (Inspect n) \<or> containers w n = None
            then ((st(i \<mapsto> False), w\<lparr>trace := trace w @ [Inspect n, SelectRow i]\<rparr>),
                  Response 500 (ErrorMsgStatus ''Failed to get container info'' False))
            else if f (Restart n)
            then ((st(i \<mapsto> False), w\<lparr>trace := trace w @ [Inspect n, Restart n]\<rparr>),
                  Response 500 (ErrorMsgStatus ''Failed to restart container'' False))
            else ((st(i \<mapsto> True),
                   w\<lparr>containers := (containers w)(n \<mapsto> (the (containers w n))\<lparr>Running := True\<rparr>),
                      trace := trace w @ [Inspect n, Restart n]\<rparr>),
                  Response 200 (IdOk i)))"
proof
  show "restartcontainer_handler f (Some i) w =
           (if f (Restart n) \<or> containers w n = None
            then (w\<lparr>trace := trace w @ [Restart n]\<rparr>,
                  Response 500 (ErrorMsg ''Failed to restart container''))
            else (w\<lparr>containers := (containers w)(n \<mapsto> (the (containers w n))\<lparr>Running := True\<rparr>),
                     trace := trace w @ [Restart n]\<rparr>,
                  Response 200 (IdOk i)))"
    unfolding restartcontainer_handler_def cli_ContainerRestart_eq n_def
    by (auto split: option.splits)
next
  let ?w1 = "w\<lparr>trace := trace w @ [Inspect n]\<rparr>"
  have unknown: "i \<notin> row_id ` set (db ?w1)" using assms(2) by simp
  show "restartcontainer_handler_cached recreate f (Some i) (st, w) =
           (if f (Inspect n) \<or> containers w n = None
            then ((st(i \<mapsto> False), w\<lparr>trace := trace w @ [Inspect n, SelectRow i]\<rparr>),
                  Response 500 (ErrorMsgStatus ''Failed to get container info'' False))
            else if f (Restart n)
            then ((st(i \<mapsto> False), w\<lparr>trace := trace w @ [Inspect n, Restart n]\<rparr>),
                  Response 500 (ErrorMsgStatus ''Failed to restart container'' False))
            else ((st(i \<mapsto> True),
                   w\<lparr>containers := (containers w)(n \<mapsto> (the (containers w n))\<lparr>Running := True\<rparr>),
                      trace := trace w @ [Inspect n, Restart n]\<rparr>),
                  Response 200 (IdOk i)))"
  proof (cases "f (Inspect n) \<or> containers w n = None")
    case True
    then have insp: "cli_ContainerInspect f n w =
                      (?w1, Inl (if f (Inspect n) then EnvError (Inspect n) else NoSuchContainer n))"
      unfolding cli_ContainerInspect_eq by (cases "f (Inspect n)") simp_all
    from True show ?thesis
      unfolding restartcontainer_handler_cached_def Let_def prod.case option.case
        n_def [symmetric] insp sum.case db_SelectRow_unknown [OF unknown]
      by simp
  next
    case False
    then obtain c where c: "containers w n = Some c" and ni: "\<not> f (Inspect n)" by auto
    have insp: "cli_ContainerInspect f n w = (?w1, Inr c)"
      unfolding cli_ContainerInspect_eq using c ni by simp
    have rs: "cli_ContainerRestart f n ?w1 =
                (if f (Restart n)
                 then (w\<lparr>trace := trace w @ [Inspect n, Restart n]\<rparr>, Inl (EnvError (Restart n)))
                 else (w\<lparr>containers := (containers w)(n \<mapsto> c\<lparr>Running := True\<rparr>),
                         trace := trace w @ [Inspect n, Restart n]\<rparr>, Inr ()))"
      unfolding cli_ContainerRestart_eq using c by simp
    from False c show ?thesis
      unfolding restartcontainer_handler_cached_def Let_def prod.case option.case
        n_def [symmetric] insp sum.case rs
      by simp
  qed
qed

theorem restart_unknown_identity_witness:
  "''Z'' \<notin> row_id ` set (db scenario_world) \<and> containers scenario_world ''octoprint-Z'' = None \<and>
   restartcontainer_handler no_faults (Some ''Z'') scenario_world =
     (scenario_world\<lparr>trace := [Restart ''octoprint-Z'']\<rparr>,
      Response 500 (ErrorMsg ''Failed to restart container'')) \<and>
   restartcontainer_handler_cached (createOctoPrintContainer no_faults) no_faults (Some ''Z'')
       (Map.empty, scenario_world) =
     ((Map.empty(''Z'' \<mapsto> False), scenario_world\<lparr>trace := [Inspect ''octoprint-Z'', SelectRow ''Z'']\<rparr>),
      Response 500 (ErrorMsgStatus ''Failed to get container info'' False)) \<and>
   ''B'' \<notin> row_id ` set (db orphan_world) \<and>
   snd (restartcontainer_handler no_faults (Some ''B'') orphan_world) = Response 200 (IdOk ''B'') \<and>
   trace (fst (restartcontainer_handler no_faults (Some ''B'') orphan_world)) = [Restart ''octoprint-B''] \<and>
   snd (restartcontainer_handler_cached (createOctoPrintContainer no_faults)
          (failing [Inspect ''octoprint-B'']) (Some ''B'') (Map.empty, orphan_world))
     = Response 500 (ErrorMsgStatus ''Failed to get container info'' False)"
proof -
  have a: "''Z'' \<notin> row_id ` set (db scenario_world)"
    by (simp add: scenario_world_simps row_A_def row_B_def)
  have b: "containers scenario_world (''octoprint-'' @ ''Z'') = None"
    by (simp add: scenario_world_def)
  have nf: "\<not> no_faults (Restart (''octoprint-'' @ ''Z''))" "\<not> no_faults (Inspect (''octoprint-'' @ ''Z''))"
    "\<not> no_faults (Restart (''octoprint-'' @ ''B''))"
    by (simp_all add: no_faults_def)
  have o: "''B'' \<notin> row_id ` set (db orphan_world)"
    by (simp add: orphan_world_def row_A_def)
  have oc: "containers orphan_world (''octoprint-'' @ ''B'') = Some \<lparr>Config = config_B, Running = False\<rparr>"
    "trace orphan_world = []"
    by (simp_all add: orphan_world_def scenario_world_simps)
  have fi: "failing [Inspect ''octoprint-B''] (Inspect (''octoprint-'' @ ''B''))"
    by (simp add: failing_def)
  note tZ = restart_unknown_identity
              [OF a, of no_faults "createOctoPrintContainer no_faults" Map.empty]
  note tB = restart_unknown_identity
              [OF o, of no_faults "createOctoPrintContainer no_faults" Map.empty]
  note tB' = restart_unknown_identity
              [OF o, of "failing [Inspect ''octoprint-B'']" "createOctoPrintContainer no_faults" Map.empty]
  from tZ b nf have z: "restartcontainer_handler no_faults (Some ''Z'') scenario_world =
     (scenario_world\<lparr>trace := [Restart ''octoprint-Z'']\<rparr>,
      Response 500 (ErrorMsg ''Failed to restart container'')) \<and>
   restartcontainer_handler_cached (createOctoPrintContainer no_faults) no_faults (Some ''Z'')
       (Map.empty, scenario_world) =
     ((Map.empty(''Z'' \<mapsto> False), scenario_world\<lparr>trace := [Inspect ''octoprint-Z'', SelectRow ''Z'']\<rparr>),
      Response 500 (ErrorMsgStatus ''Failed to get container info'' False))"
    by (simp add: scenario_world_simps)
  from tB oc nf have r: "snd (restartcontainer_handler no_faults (Some ''B'') orphan_world) = Response 200 (IdOk ''B'') \<and>
   trace (fst (restartcontainer_handler no_faults (Some ''B'') orphan_world)) = [Restart ''octoprint-B'']"
    by simp
  from tB' fi have c: "snd (restartcontainer_handler_cached (createOctoPrintContainer no_faults)
          (failing [Inspect ''octoprint-B'']) (Some ''B'') (Map.empty, orphan_world))
     = Response 500 (ErrorMsgStatus ''Failed to get container info'' False)"
    by simp
  from a b z o r c show ?thesis by simp
qed

text \<open>
  Claim C7 as stated fails: \<open>B\<close> has no row but its instance exists, and both
  handlers restart it and answer with success.
\<close>

theorem restart_unknown_identity_counterexample:
  "''B'' \<notin> row_id ` set (db orphan_world) \<and>
   restartcontainer_handler no_faults (Some ''B'') orphan_world =
     (orphan_world\<lparr>containers := (containers orphan_world)
                      (''octoprint-B'' \<mapsto> \<lparr>Config = config_B, Running = True\<rparr>),
                   trace := [Restart ''octoprint-B'']\<rparr>,
      Response 200 (IdOk ''B'')) \<and>
   restartcontainer_handler_cached (createOctoPrintContainer no_faults) no_faults (Some ''B'')
       (Map.empty, orphan_world) =
     ((Map.empty(''B'' \<mapsto> True),
       orphan_world\<lparr>containers := (containers orphan_world)
                      (''octoprint-B'' \<mapsto> \<lparr>Config = config_B, Running = True\<rparr>),
                   trace := [Inspect ''octoprint-B'', Restart ''octoprint-B'']\<rparr>),
      Response 200 (IdOk ''B''))"
proof -
  have o: "db orphan_world = [row_A]" "trace orphan_world = []"
    "containers orphan_world ''octoprint-B'' = Some \<lparr>Config = config_B, Running = False\<rparr>"
    by (simp_all add: orphan_world_def scenario_world_def)
  show ?thesis
    by (simp add: o row_A_def restartcontainer_handler_def restartcontainer_handler_cached_def
        cli_ContainerRestart_def cli_ContainerInspect_def no_faults_def issue_def Let_def)
qed

subsection \<open>Creation, step by step\<close>

lemma createOctoPrintContainer_eq:
  "createOctoPrintContainer f i dev p w =
     (let sp = ''/dev/serial/by-id/'' @ dev; n = ''octoprint-'' @ i;
          cfg = expected_config i p (the (symlinks w sp))
      in if f (Readlink sp) \<or> symlinks w sp = None
         then (w\<lparr>trace := trace w @ [Readlink sp]\<rparr>,
               Inl (FailedToResolveDeviceSymlink sp
                      (if f (Readlink sp) then EnvError (Readlink sp) else NoSuchFile sp)))
         else if f (Create n cfg) \<or> containers w n \<noteq> None
         then (w\<lparr>trace := trace w @ [Readlink sp, Create n cfg]\<rparr>,
               Inl (FailedToCreateContainer
                      (if f (Create n cfg) then EnvError (Create n cfg) else NameConflict n)))
         else if f (Start n)
         then (w\<lparr>containers := (containers w)(n \<mapsto> \<lparr>Config = cfg, Running = False\<rparr>),
                  trace := trace w @ [Readlink sp, Create n cfg, Start n]\<rparr>,
               Inl (FailedToStartContainer (EnvError (Start n))))
         else (w\<lparr>containers := (containers w)(n \<mapsto> \<lparr>Config = cfg, Running = True\<rparr>),
                  trace := trace w @ [Readlink sp, Create n cfg, Start n]\<rparr>,
               Inr n))"
  by (auto simp add: createOctoPrintContainer_def filepath_EvalSymlinks_def cli_ContainerCreate_def
        cli_ContainerStart_def expected_config_def issue_def Let_def)

lemma getNextAvailablePort_eq:
  "getNextAvailablePort f w =
     (w\<lparr>trace := trace w @ [SelectMaxPort]\<rparr>,
      if f SelectMaxPort then Inl (FailedToQueryMaxPort (EnvError SelectMaxPort))
      else Inr (next_port w))"
  by (simp add: getNextAvailablePort_def db_SelectMaxPort_def next_port_def issue_def
        split: option.splits)

lemma CreateNewContainer_eq:
  "CreateNewContainer f i dev w =
     (let vp = ''/mnt/storage/octoprint/'' @ i; sp = ''/dev/serial/by-id/'' @ dev;
          n = ''octoprint-'' @ i; p = next_port w;
          cfg = expected_config i p (the (symlinks w sp))
      in if f SelectMaxPort
         then (w\<lparr>trace := trace w @ [SelectMaxPort]\<rparr>,
               Inl (FailedToGetNextAvailablePort (FailedToQueryMaxPort (EnvError SelectMaxPort))))
         else if f (Mkdir vp)
         then (w\<lparr>trace := trace w @ [SelectMaxPort, Mkdir vp]\<rparr>,
               Inl (FailedToCreateVolumeDirectory (EnvError (Mkdir vp))))
         else if f (Readlink sp) \<or> symlinks w sp = None
         then (w\<lparr>dirs := insert vp (dirs w),
                  trace := trace w @ [SelectMaxPort, Mkdir vp, Readlink sp]\<rparr>,
               Inl (FailedToResolveDeviceSymlink sp
                      (if f (Readlink sp) then EnvError (Readlink sp) else NoSuchFile sp)))
         else if f (Create n cfg) \<or> containers w n \<noteq> None
         then (w\<lparr>dirs := insert vp (dirs w),
                  trace := trace w @ [SelectMaxPort, Mkdir vp, Readlink sp, Create n cfg]\<rparr>,
               Inl (FailedToCreateContainer
                      (if f (Create n cfg) then EnvError (Create n cfg) else NameConflict n)))
         else if f (Start n)
         then (w\<lparr>containers := (containers w)(n \<mapsto> \<lparr>Config = cfg, Running = False\<rparr>),
                  dirs := insert vp (dirs w),
                  trace := trace w @ [SelectMaxPort, Mkdir vp, Readlink sp, Create n cfg, Start n]\<rparr>,
               Inl (FailedToStartContainer (EnvError (Start n))))
         else if f (InsertRow i) \<or> i \<in> row_id ` set (db w)
         then (w\<lparr>containers := (containers w)(n \<mapsto> \<lparr>Config = cfg, Running = True\<rparr>),
                  dirs := insert vp (dirs w),
                  trace := trace w @ [SelectMaxPort, Mkdir vp, Readlink sp, Create n cfg, Start n,
                                      InsertRow i]\<rparr>,
               Inl (FailedToInsertNewContainer
                      (if f (InsertRow i) then EnvError (InsertRow i) else PrimaryKeyConflict i)))
         else (w\<lparr>db := db w @ [\<lparr>row_id = i, device = dev, port = p, name = None\<rparr>],
                  containers := (containers w)(n \<mapsto> \<lparr>Config = cfg, Running = True\<rparr>),
                  dirs := insert vp (dirs w),
                  trace := trace w @ [SelectMaxPort, Mkdir vp, Readlink sp, Create n cfg, Start n,
                                      InsertRow i]\<rparr>,
               Inr n))"
  unfolding CreateNewContainer_def getNextAvailablePort_eq createOctoPrintContainer_eq
  by (simp add: os_MkdirAll_def db_Insert_def issue_def Let_def)

lemma CreateNewContainer_trace:
  "\<exists>k. trace (fst (CreateNewContainer f i dev w)) =
         trace w @ take k [SelectMaxPort, Mkdir (''/mnt/storage/octoprint/'' @ i),
                           Readlink (''/dev/serial/by-id/'' @ dev),
                           Create (''octoprint-'' @ i)
                             (expected_config i (next_port w)
                                (the (symlinks w (''/dev/serial/by-id/'' @ dev)))),
                           Start (''octoprint-'' @ i), InsertRow i]"
proof -
  let ?L = "[SelectMaxPort, Mkdir (''/mnt/storage/octoprint/'' @ i),
                           Readlink (''/dev/serial/by-id/'' @ dev),
                           Create (''octoprint-'' @ i)
                             (expected_config i (next_port w)
                                (the (symlinks w (''/dev/serial/by-id/'' @ dev)))),
                           Start (''octoprint-'' @ i), InsertRow i]"
  let ?t = "trace (fst (CreateNewContainer f i dev w))"
  have "?t = trace w @ take 1 ?L \<or> ?t = trace w @ take 2 ?L \<or> ?t = trace w @ take 3 ?L \<or>
        ?t = trace w @ take 4 ?L \<or> ?t = trace w @ take 5 ?L \<or> ?t = trace w @ take 6 ?L"
    unfolding CreateNewContainer_eq Let_def by simp
  then show ?thesis by blast
qed

lemma CreateNewContainer_inserted:
  assumes "db (fst (CreateNewContainer f i dev w)) \<noteq> db w"
  shows "snd (CreateNewContainer f i dev w) = Inr (''octoprint-'' @ i) \<and>
         containers (fst (CreateNewContainer f i dev w)) (''octoprint-'' @ i) =
           Some \<lparr>Config = expected_config i (next_port w)
                             (the (symlinks w (''/dev/serial/by-id/'' @ dev))),
                 Running = True\<rparr> \<and>
         ''/mnt/storage/octoprint/'' @ i \<in> dirs (fst (CreateNewContainer f i dev w)) \<and>
         db (fst (CreateNewContainer f i dev w)) =
           db w @ [\<lparr>row_id = i, device = dev, port = next_port w, name = None\<rparr>]"
  using assms unfolding CreateNewContainer_eq Let_def by (simp split: if_splits)

lemma CreateNewContainer_runtime_failure:
  assumes "snd (CreateNewContainer f i dev w) = Inl (FailedToCreateContainer e) \<or>
           snd (CreateNewContainer f i dev w) = Inl (FailedToStartContainer e)"
  shows "db (fst (CreateNewContainer f i dev w)) = db w \<and>
         ''/mnt/storage/octoprint/'' @ i \<in> dirs (fst (CreateNewContainer f i dev w))"
  using assms unfolding CreateNewContainer_eq Let_def by (simp split: if_splits)

lemma CreateNewContainer_create_issued:
  assumes "Create (''octoprint-'' @ i) cfg \<in>
             set (drop (length (trace w)) (trace (fst (CreateNewContainer f i dev w))))"
  shows "''/mnt/storage/octoprint/'' @ i \<in> dirs (fst (CreateNewContainer f i dev w))"
  using assms unfolding CreateNewContainer_eq Let_def by (simp split: if_splits)

text \<open>
  Claim C3. The calls of one \<open>CreateNewContainer\<close> are an initial part of: query of
  the largest port, creation of the directory, resolution of the device link, creation
  of the instance, start of the instance, insertion of the row. When the creation of the
  instance is issued the directory exists; a row is inserted only when the instance was
  created and started (it is then running, and the call succeeds); and when the
  creation or the start of the instance fails, the table is as before and the directory
  is still there.
\<close>

theorem CreateNewContainer_ordering:
  fixes f i dev w
  defines "w' \<equiv> fst (CreateNewContainer f i dev w)"
    and "res \<equiv> snd (CreateNewContainer f i dev w)"
    and "cfg \<equiv> expected_config i (next_port w) (the (symlinks w (''/dev/serial/by-id/'' @ dev)))"
  shows "(\<exists>k. trace w' =
            trace w @ take k [SelectMaxPort, Mkdir (''/mnt/storage/octoprint/'' @ i),
                              Readlink (''/dev/serial/by-id/'' @ dev),
                              Create (''octoprint-'' @ i) cfg,
                              Start (''octoprint-'' @ i), InsertRow i]) \<and>
         (Create (''octoprint-'' @ i) cfg \<in> set (drop (length (trace w)) (trace w')) \<longrightarrow>
            ''/mnt/storage/octoprint/'' @ i \<in> dirs w') \<and>
         (db w' \<noteq> db w \<longrightarrow>
            res = Inr (''octoprint-'' @ i) \<and>
            containers w' (''octoprint-'' @ i) = Some \<lparr>Config = cfg, Running = True\<rparr> \<and>
            ''/mnt/storage/octoprint/'' @ i \<in> dirs w' \<and>
            db w' = db w @ [\<lparr>row_id = i, device = dev, port = next_port w, name = None\<rparr>]) \<and>
         (\<forall>e. res = Inl (FailedToCreateContainer e) \<or> res = Inl (FailedToStartContainer e) \<longrightarrow>
            db w' = db w \<and> ''/mnt/storage/octoprint/'' @ i \<in> dirs w')"
  unfolding w'_def res_def cfg_def
  using CreateNewContainer_trace [of f i dev w] CreateNewContainer_create_issued [of i _ w f dev]
    CreateNewContainer_inserted [of f i dev w] CreateNewContainer_runtime_failure [of f i dev w]
  by blast

lemma next_port_scenario: "next_port scenario_world = 2002"
  by (simp add: next_port_def scenario_world_simps row_A_def row_B_def int64_wrap_def)

lemma CreateNewContainer_C_start_fails:
  "CreateNewContainer (failing [Start ''octoprint-C'']) ''C'' ''usbA'' scenario_world =
     (scenario_world
        \<lparr>containers := (containers scenario_world)
           (''octoprint-C'' \<mapsto> \<lparr>Config = expected_config ''C'' 2002 ''/dev/ttyUSB0'', Running = False\<rparr>),
         dirs := insert ''/mnt/storage/octoprint/C'' (dirs scenario_world),
         trace := [SelectMaxPort, Mkdir ''/mnt/storage/octoprint/C'',
                   Readlink ''/dev/serial/by-id/usbA'',
                   Create ''octoprint-C'' (expected_config ''C'' 2002 ''/dev/ttyUSB0''),
                   Start ''octoprint-C'']\<rparr>,
      Inl (FailedToStartContainer (EnvError (Start ''octoprint-C''))))"
proof -
  have c: "containers scenario_world ''octoprint-C'' = None" by (simp add: scenario_world_def)
  show ?thesis
    unfolding CreateNewContainer_eq Let_def
    by (simp add: failing_def scenario_world_simps next_port_scenario c)
qed

lemma CreateNewContainer_C_ok:
  "CreateNewContainer no_faults ''C'' ''usbA'' scenario_world =
     (scenario_world
        \<lparr>db := [row_A, row_B, \<lparr>row_id = ''C'', device = ''usbA'', port = 2002, name = None\<rparr>],
         containers := (containers scenario_world)
           (''octoprint-C'' \<mapsto> \<lparr>Config = expected_config ''C'' 2002 ''/dev/ttyUSB0'', Running = True\<rparr>),
         dirs := insert ''/mnt/storage/octoprint/C'' (dirs scenario_world),
         trace := [SelectMaxPort, Mkdir ''/mnt/storage/octoprint/C'',
                   Readlink ''/dev/serial/by-id/usbA'',
                   Create ''octoprint-C'' (expected_config ''C'' 2002 ''/dev/ttyUSB0''),
                   Start ''octoprint-C'', InsertRow ''C'']\<rparr>,
      Inr ''octoprint-C'')"
proof -
  have c: "containers scenario_world ''octoprint-C'' = None" by (simp add: scenario_world_def)
  show ?thesis
    unfolding CreateNewContainer_eq Let_def
    by (simp add: no_faults_def scenario_world_simps next_port_scenario c row_A_def row_B_def)
qed

theorem CreateNewContainer_ordering_witness:
  "snd (CreateNewContainer (failing [Start ''octoprint-C'']) ''C'' ''usbA'' scenario_world)
     = Inl (FailedToStartContainer (EnvError (Start ''octoprint-C''))) \<and>
   db (fst (CreateNewContainer (failing [Start ''octoprint-C'']) ''C'' ''usbA'' scenario_world))
     = db scenario_world \<and>
   ''/mnt/storage/octoprint/C''
     \<in> dirs (fst (CreateNewContainer (failing [Start ''octoprint-C'']) ''C'' ''usbA'' scenario_world)) \<and>
   db (fst (CreateNewContainer no_faults ''C'' ''usbA'' scenario_world)) \<noteq> db scenario_world \<and>
   snd (CreateNewContainer no_faults ''C'' ''usbA'' scenario_world) = Inr ''octoprint-C'' \<and>
   containers (fst (CreateNewContainer no_faults ''C'' ''usbA'' scenario_world)) ''octoprint-C''
     = Some \<lparr>Config = expected_config ''C'' 2002 ''/dev/ttyUSB0'', Running = True\<rparr>"
proof -
  have r: "snd (CreateNewContainer (failing [Start ''octoprint-C'']) ''C'' ''usbA'' scenario_world)
     = Inl (FailedToStartContainer (EnvError (Start ''octoprint-C'')))"
    by (simp add: CreateNewContainer_C_start_fails)
  have d: "db (fst (CreateNewContainer no_faults ''C'' ''usbA'' scenario_world)) \<noteq> db scenario_world"
    by (simp add: CreateNewContainer_C_ok scenario_world_simps)
  note t1 = CreateNewContainer_ordering [of "failing [Start ''octoprint-C'']" "''C''" "''usbA''" scenario_world]
  note t2 = CreateNewContainer_ordering [of no_faults "''C''" "''usbA''" scenario_world]
  from t1 r have a: "db (fst (CreateNewContainer (failing [Start ''octoprint-C'']) ''C'' ''usbA'' scenario_world))
     = db scenario_world \<and>
   ''/mnt/storage/octoprint/'' @ ''C''
     \<in> dirs (fst (CreateNewContainer (failing [Start ''octoprint-C'']) ''C'' ''usbA'' scenario_world))"
    by blast
  from t2 d have b: "snd (CreateNewContainer no_faults ''C'' ''usbA'' scenario_world) = Inr (''octoprint-'' @ ''C'') \<and>
   containers (fst (CreateNewContainer no_faults ''C'' ''usbA'' scenario_world)) (''octoprint-'' @ ''C'')
     = Some \<lparr>Config = expected_config ''C'' (next_port scenario_world)
               (the (symlinks scenario_world (''/dev/serial/by-id/'' @ ''usbA''))), Running = True\<rparr>"
    by blast
  from r d a b show ?thesis by (simp add: next_port_scenario scenario_world_simps)
qed

subsection \<open>Creation for a device that does not resolve\<close>

text \<open>
  Claim C6, as the code has it. When the device link is missing or cannot be resolved,
  \<open>CreateNewContainer\<close> fails, the table and the engine are as before, no call that
  changes a runtime instance is issued, and the allocator still returns the same port.
  When the port query and the creation of the directory succeed, the error is the
  failed resolution of the link, and by then the storage directory has been created:
  the calls are the port query, the directory creation and the resolution, in this order.
\<close>

theorem CreateNewContainer_device_not_found:
  fixes f i dev w
  defines "w' \<equiv> fst (CreateNewContainer f i dev w)"
    and "res \<equiv> snd (CreateNewContainer f i dev w)"
    and "sp \<equiv> ''/dev/serial/by-id/'' @ dev"
    and "vp \<equiv> ''/mnt/storage/octoprint/'' @ i"
  assumes "symlinks w sp = None \<or> f (Readlink sp)"
  shows "isl res \<and> db w' = db w \<and> containers w' = containers w \<and>
         filter runtime_mutation (trace w') = filter runtime_mutation (trace w) \<and>
         snd (getNextAvailablePort g w') = snd (getNextAvailablePort g w) \<and>
         (\<not> f SelectMaxPort \<and> \<not> f (Mkdir vp) \<longrightarrow>
            res = Inl (FailedToResolveDeviceSymlink sp
                         (if f (Readlink sp) then EnvError (Readlink sp) else NoSuchFile sp)) \<and>
            dirs w' = insert vp (dirs w) \<and>
            trace w' = trace w @ [SelectMaxPort, Mkdir vp, Readlink sp])"
proof -
  have e: "isl res \<and> db w' = db w \<and> containers w' = containers w \<and>
         filter runtime_mutation (trace w') = filter runtime_mutation (trace w) \<and>
         (\<not> f SelectMaxPort \<and> \<not> f (Mkdir vp) \<longrightarrow>
            res = Inl (FailedToResolveDeviceSymlink sp
                         (if f (Readlink sp) then EnvError (Readlink sp) else NoSuchFile sp)) \<and>
            dirs w' = insert vp (dirs w) \<and>
            trace w' = trace w @ [SelectMaxPort, Mkdir vp, Readlink sp])"
    using assms(5) unfolding w'_def res_def sp_def vp_def CreateNewContainer_eq Let_def
    by auto
  then have "db w' = db w" by blast
  then have "snd (getNextAvailablePort g w') = snd (getNextAvailablePort g w)"
    by (simp add: getNextAvailablePort_snd)
  with e show ?thesis by blast
qed

lemma CreateNewContainer_usbC:
  "CreateNewContainer no_faults ''C'' ''usbC'' scenario_world =
     (scenario_world
        \<lparr>dirs := insert ''/mnt/storage/octoprint/C'' (dirs scenario_world),
         trace := [SelectMaxPort, Mkdir ''/mnt/storage/octoprint/C'',
                   Readlink ''/dev/serial/by-id/usbC'']\<rparr>,
      Inl (FailedToResolveDeviceSymlink ''/dev/serial/by-id/usbC''
             (NoSuchFile ''/dev/serial/by-id/usbC'')))"
  unfolding CreateNewContainer_eq Let_def
  by (simp add: no_faults_def scenario_world_simps)

theorem CreateNewContainer_device_not_found_witness:
  "symlinks scenario_world ''/dev/serial/by-id/usbC'' = None \<and>
   snd (CreateNewContainer no_faults ''C'' ''usbC'' scenario_world) =
     Inl (FailedToResolveDeviceSymlink ''/dev/serial/by-id/usbC''
            (NoSuchFile ''/dev/serial/by-id/usbC'')) \<and>
   db (fst (CreateNewContainer no_faults ''C'' ''usbC'' scenario_world)) = db scenario_world \<and>
   containers (fst (CreateNewContainer no_faults ''C'' ''usbC'' scenario_world))
     = containers scenario_world \<and>
   snd (getNextAvailablePort no_faults (fst (CreateNewContainer no_faults ''C'' ''usbC'' scenario_world)))
     = Inr 2002"
proof -
  have s: "symlinks scenario_world (''/dev/serial/by-id/'' @ ''usbC'') = None
             \<or> no_faults (Readlink (''/dev/serial/by-id/'' @ ''usbC''))"
    by (simp add: scenario_world_simps)
  have n: "\<not> no_faults SelectMaxPort" "\<not> no_faults (Mkdir (''/mnt/storage/octoprint/'' @ ''C''))"
    "\<not> no_faults (Readlink (''/dev/serial/by-id/'' @ ''usbC''))"
    by (simp_all add: no_faults_def)
  have p: "snd (getNextAvailablePort no_faults scenario_world) = Inr 2002"
    by (simp add: getNextAvailablePort_snd no_faults_def scenario_world_simps row_A_def row_B_def
        int64_wrap_def)
  from CreateNewContainer_device_not_found
         [where f = no_faults and i = "''C''" and dev = "''usbC''" and w = scenario_world
            and g = no_faults, OF s] n p
  show ?thesis by (simp add: scenario_world_simps)
qed

text \<open>
  Claim C6 as stated fails where it says that the operation aborts before any mutation:
  the storage directory of the new id is created before the link is looked at.
\<close>

theorem CreateNewContainer_device_not_found_counterexample:
  "symlinks scenario_world ''/dev/serial/by-id/usbC'' = None \<and>
   ''/mnt/storage/octoprint/C'' \<notin> dirs scenario_world \<and>
   ''/mnt/storage/octoprint/C'' \<in> dirs (fst (CreateNewContainer no_faults ''C'' ''usbC'' scenario_world)) \<and>
   trace (fst (CreateNewContainer no_faults ''C'' ''usbC'' scenario_world)) =
     [SelectMaxPort, Mkdir ''/mnt/storage/octoprint/C'', Readlink ''/dev/serial/by-id/usbC'']"
  by (simp add: CreateNewContainer_usbC scenario_world_simps) (simp add: scenario_world_def)

subsection \<open>Ports stay distinct\<close>

lemma next_port_eq:
  "next_port w = (if db w = [] then 2000 else int64_wrap (Max (port ` set (db w)) + 1))"
proof (cases "db w = []")
  case True
  then show ?thesis by (simp add: next_port_def)
next
  case False
  then show ?thesis
    using sql_max_Max [of "map port (db w)"] by (simp add: next_port_def)
qed

lemma next_port_fresh:
  assumes "\<forall>r\<in>set (db w). port r < 2 ^ 63 - 1 \<and> - (2 ^ 63) \<le> port r"
  shows "\<forall>r\<in>set (db w). port r < next_port w"
proof (cases "db w = []")
  case True
  then show ?thesis by simp
next
  case False
  let ?m = "Max (port ` set (db w))"
  have "?m \<in> port ` set (db w)" using False by (intro Max_in) auto
  with assms have "int64_range (?m + 1)" by (auto simp add: int64_range_def)
  then have "next_port w = ?m + 1" using False by (simp add: next_port_eq int64_wrap_id)
  moreover have "\<forall>r\<in>set (db w). port r \<le> ?m" by simp
  ultimately show ?thesis by fastforce
qed

lemma CreateNewContainer_db:
  "db (fst (CreateNewContainer f i dev w)) = db w \<or>
   db (fst (CreateNewContainer f i dev w)) =
     db w @ [\<lparr>row_id = i, device = dev, port = next_port w, name = None\<rparr>]"
  unfolding CreateNewContainer_eq Let_def by simp

lemma next_port_bounds:
  assumes "ports_ok (Suc k) w"
  shows "(\<forall>r\<in>set (db w). port r < next_port w) \<and> - (2 ^ 63) \<le> next_port w \<and>
         next_port w + int k < 2 ^ 63 - 1"
proof (cases "db w = []")
  case True
  with assms show ?thesis by (simp add: next_port_eq ports_ok_def)
next
  case False
  let ?m = "Max (port ` set (db w))"
  have in_range: "\<forall>r\<in>set (db w). - (2 ^ 63) \<le> port r \<and> port r + int (Suc k) < 2 ^ 63 - 1"
    using assms by (simp add: ports_ok_def list_all_iff)
  have m: "?m \<in> port ` set (db w)" using False by (intro Max_in) auto
  with in_range have b: "- (2 ^ 63) \<le> ?m \<and> ?m + int (Suc k) < 2 ^ 63 - 1" by auto
  then have "int64_range (?m + 1)" by (simp add: int64_range_def)
  then have n: "next_port w = ?m + 1" using False by (simp add: next_port_eq int64_wrap_id)
  have "\<forall>r\<in>set (db w). port r \<le> ?m" by simp
  with n b show ?thesis by fastforce
qed

lemma ports_ok_step:
  assumes "ports_ok (Suc k) w"
  shows "ports_ok k (fst (CreateNewContainer f i dev w))"
proof -
  have weaker: "ports_ok k w"
    using assms by (auto simp add: ports_ok_def list_all_iff)
  from CreateNewContainer_db [of f i dev w] show ?thesis
  proof
    assume "db (fst (CreateNewContainer f i dev w)) = db w"
    with weaker show ?thesis by (simp add: ports_ok_def)
  next
    assume d: "db (fst (CreateNewContainer f i dev w)) =
      db w @ [\<lparr>row_id = i, device = dev, port = next_port w, name = None\<rparr>]"
    from next_port_bounds [OF assms] have "next_port w \<notin> port ` set (db w)" by auto
    with weaker next_port_bounds [OF assms] d show ?thesis
      by (simp add: ports_ok_def)
  qed
qed

lemma ports_ok_create_all:
  "ports_ok (length ops + k) w \<Longrightarrow> ports_ok k (create_all ops w)"
proof (induction ops arbitrary: w)
  case Nil
  then show ?case by simp
next
  case (Cons op ops)
  obtain f i dev where op: "op = (f, i, dev)" by (cases op) auto
  from Cons.prems have "ports_ok (Suc (length ops + k)) w" by simp
  then have "ports_ok (length ops + k) (fst (CreateNewContainer f i dev w))"
    by (rule ports_ok_step)
  from Cons.IH [OF this] show ?case by (simp add: op)
qed

text \<open>
  Claim C1. From a table with pairwise distinct ports, any sequence of creations run
  one after the other (whatever their ids, devices and failures) leaves a table with
  pairwise distinct ports, and the allocator then returns a port that no row holds.
  The sequence is short enough for the ports to stay below the last 64-bit integer,
  where Go's addition would wrap around.
\<close>

theorem create_all_ports_distinct:
  assumes "distinct (map port (db w))"
    and "\<forall>r\<in>set (db w). - (2 ^ 63) \<le> port r \<and> port r + int (length ops) < 2 ^ 63 - 2"
    and "2000 + int (length ops) < 2 ^ 63 - 2"
  shows "distinct (map port (db (create_all ops w))) \<and>
         (\<forall>g p. snd (getNextAvailablePort g (create_all ops w)) = Inr p \<longrightarrow>
                p \<notin> port ` set (db (create_all ops w)))"
proof -
  have "ports_ok (length ops + 1) w"
    using assms by (simp add: ports_ok_def list_all_iff)
  then have ok: "ports_ok (Suc 0) (create_all ops w)"
    using ports_ok_create_all [of ops 1 w] by simp
  then have d: "distinct (map port (db (create_all ops w)))"
    by (simp add: ports_ok_def)
  have fresh: "\<forall>r\<in>set (db (create_all ops w)). port r < next_port (create_all ops w)"
    using next_port_bounds [OF ok] by blast
  have "\<forall>g p. snd (getNextAvailablePort g (create_all ops w)) = Inr p \<longrightarrow>
                p \<notin> port ` set (db (create_all ops w))"
  proof (intro allI impI)
    fix g p assume "snd (getNextAvailablePort g (create_all ops w)) = Inr p"
    then have "p = next_port (create_all ops w)"
      by (simp add: getNextAvailablePort_eq split: if_splits)
    with fresh show "p \<notin> port ` set (db (create_all ops w))" by auto
  qed
  with d show ?thesis by blast
qed

lemma CreateNewContainer_success_db:
  assumes "\<forall>c. \<not> f c" and "symlinks w (''/dev/serial/by-id/'' @ dev) = Some usb"
    and "containers w (''octoprint-'' @ i) = None" and "i \<notin> row_id ` set (db w)"
  shows "db (fst (CreateNewContainer f i dev w)) =
           db w @ [\<lparr>row_id = i, device = dev, port = next_port w, name = None\<rparr>]"
  unfolding CreateNewContainer_eq Let_def using assms by simp

lemma create_all_scenario:
  "map port (db (create_all [(no_faults, ''C'', ''usbA''), (no_faults, ''D'', ''usbB'')]
                   scenario_world)) = [2000, 2001, 2002, 2003]"
proof -
  let ?w1 = "fst (CreateNewContainer no_faults ''C'' ''usbA'' scenario_world)"
  have c: "containers ?w1 ''octoprint-D'' = None"
    by (simp add: CreateNewContainer_C_ok) (simp add: scenario_world_def)
  have s: "symlinks ?w1 ''/dev/serial/by-id/usbB'' = Some ''/dev/ttyUSB1''"
    by (simp add: CreateNewContainer_C_ok scenario_world_simps)
  have d: "db ?w1 = [row_A, row_B, \<lparr>row_id = ''C'', device = ''usbA'', port = 2002, name = None\<rparr>]"
    by (simp add: CreateNewContainer_C_ok)
  have n: "next_port ?w1 = 2003"
    by (simp add: next_port_def d row_A_def row_B_def int64_wrap_def)
  have i: "''D'' \<notin> row_id ` set (db ?w1)"
    by (simp add: d row_A_def row_B_def)
  have nf: "\<forall>c. \<not> no_faults c" by (simp add: no_faults_def)
  have "db (fst (CreateNewContainer no_faults ''D'' ''usbB'' ?w1)) =
          db ?w1 @ [\<lparr>row_id = ''D'', device = ''usbB'', port = next_port ?w1, name = None\<rparr>]"
    using CreateNewContainer_success_db [OF nf, of ?w1 "''usbB''" "''/dev/ttyUSB1''" "''D''"] s c i
    by simp
  then have "map port (db (fst (CreateNewContainer no_faults ''D'' ''usbB'' ?w1))) = [2000, 2001, 2002, 2003]"
    unfolding d n by (simp add: row_A_def row_B_def)
  then show ?thesis by simp
qed

theorem create_all_ports_distinct_witness:
  "distinct (map port (db scenario_world)) \<and>
   map port (db (create_all [(no_faults, ''C'', ''usbA''), (no_faults, ''D'', ''usbB'')]
                   scenario_world)) = [2000, 2001, 2002, 2003] \<and>
   distinct (map port (db (create_all [(no_faults, ''C'', ''usbA''), (no_faults, ''D'', ''usbB'')]
                   scenario_world))) \<and>
   snd (getNextAvailablePort no_faults
          (create_all [(no_faults, ''C'', ''usbA''), (no_faults, ''D'', ''usbB'')] scenario_world))
     = Inr 2004"
proof -
  let ?ops = "[(no_faults, ''C'', ''usbA''), (no_faults, ''D'', ''usbB'')]"
  have a: "distinct (map port (db scenario_world))"
    by (simp add: scenario_world_simps row_A_def row_B_def)
  have b: "\<forall>r\<in>set (db scenario_world). - (2 ^ 63) \<le> port r \<and> port r + int (length ?ops) < 2 ^ 63 - 2"
    by (simp add: scenario_world_simps row_A_def row_B_def)
  have c: "2000 + int (length ?ops) < 2 ^ 63 - 2" by simp
  have m: "map port (db (create_all ?ops scenario_world)) = [2000, 2001, 2002, 2003]"
    by (rule create_all_scenario)
  have ne: "db (create_all ?ops scenario_world) \<noteq> []" using m by auto
  have g: "snd (getNextAvailablePort no_faults (create_all ?ops scenario_world)) = Inr 2004"
    using m ne sql_max_Max [of "map port (db (create_all ?ops scenario_world))"]
    by (simp add: getNextAvailablePort_snd no_faults_def int64_wrap_def)
  from create_all_ports_distinct [OF a b c] a m g show ?thesis by blast
qed

subsection \<open>The port of a deleted record\<close>

text \<open>
  Claim C10, as the code has it. After the row holding the largest port is deleted, the
  allocator returns the largest remaining port plus one, or 2000 when no row remains.
  That value never exceeds the deleted port, and it is the deleted port exactly when the
  largest remaining port is one below it, or when no row remains and the deleted port
  was 2000. (Ids and ports are distinct, ports are at least 2000 and below the last
  64-bit integer, and the deletion and the query succeed.)
\<close>

theorem next_port_after_delete_of_max:
  fixes f g i w r
  defines "w' \<equiv> fst (DeleteContainer f i w)"
  assumes deleted:
      "snd (DeleteContainer f i w) \<noteq> Some (Response 500 (ErrorMsg ''Failed to remove container''))"
      "snd (DeleteContainer f i w)
         \<noteq> Some (Response 500 (ErrorMsg ''Failed to delete container from database''))"
    and r: "r \<in> set (db w)" "row_id r = i" "port r = Max (port ` set (db w))"
    and keys: "distinct (map row_id (db w))" "distinct (map port (db w))"
    and range: "\<forall>x\<in>set (db w). 2000 \<le> port x \<and> port x < 2 ^ 63 - 1"
    and query: "\<not> g SelectMaxPort"
  shows "snd (getNextAvailablePort g w') =
           Inr (if db w' = [] then 2000 else Max (port ` set (db w')) + 1) \<and>
         (if db w' = [] then 2000 else Max (port ` set (db w')) + 1) \<le> port r \<and>
         ((if db w' = [] then 2000 else Max (port ` set (db w')) + 1) = port r \<longleftrightarrow>
            (db w' = [] \<and> port r = 2000) \<or>
            (db w' \<noteq> [] \<and> Max (port ` set (db w')) = port r - 1))"
proof -
  have dbw': "db w' = filter (\<lambda>x. row_id x \<noteq> i) (db w)"
    unfolding w'_def DeleteContainer_db [of f i w] using deleted by simp
  have sub: "set (db w') \<subseteq> set (db w) - {r}"
    using r(2) by (auto simp add: dbw')
  have less: "\<forall>x\<in>set (db w'). port x < port r"
  proof
    fix x assume x: "x \<in> set (db w')"
    with sub have xin: "x \<in> set (db w)" and xr: "x \<noteq> r" by auto
    have "port x \<le> port r" unfolding r(3) using xin by simp
    moreover have "port x \<noteq> port r"
      using keys(2) xin r(1) xr by (auto simp add: distinct_map inj_on_def)
    ultimately show "port x < port r" by simp
  qed
  have nxt: "next_port w' = (if db w' = [] then 2000 else Max (port ` set (db w')) + 1)"
  proof (cases "db w' = []")
    case True
    then show ?thesis by (simp add: next_port_eq)
  next
    case False
    let ?m = "Max (port ` set (db w'))"
    have "?m \<in> port ` set (db w')" using False by (intro Max_in) auto
    then obtain x where x: "x \<in> set (db w')" "port x = ?m" by auto
    with sub range have "2000 \<le> ?m \<and> ?m < 2 ^ 63 - 1" by fastforce
    then have "int64_range (?m + 1)" by (simp add: int64_range_def)
    with False show ?thesis by (simp add: next_port_eq int64_wrap_id)
  qed
  have le: "(if db w' = [] then 2000 else Max (port ` set (db w')) + 1) \<le> port r"
  proof (cases "db w' = []")
    case True
    with range r(1) show ?thesis by auto
  next
    case False
    have "Max (port ` set (db w')) \<in> port ` set (db w')" using False by (intro Max_in) auto
    then obtain x where x: "x \<in> set (db w')" "port x = Max (port ` set (db w'))" by auto
    from less x(1) have "port x < port r" by blast
    then have "Max (port ` set (db w')) + 1 \<le> port r" unfolding x(2) by linarith
    with False show ?thesis by (simp only: if_False)
  qed
  have iff: "((if db w' = [] then 2000 else Max (port ` set (db w')) + 1) = port r \<longleftrightarrow>
            (db w' = [] \<and> port r = 2000) \<or>
            (db w' \<noteq> [] \<and> Max (port ` set (db w')) = port r - 1))"
    by auto
  have "snd (getNextAvailablePort g w') = Inr (next_port w')"
    using query by (simp add: getNextAvailablePort_eq)
  then have first: "snd (getNextAvailablePort g w') =
           Inr (if db w' = [] then 2000 else Max (port ` set (db w')) + 1)"
    unfolding nxt .
  from first le iff show ?thesis by blast
qed

theorem next_port_after_delete_of_max_witness:
  "snd (DeleteContainer (failing [Stop ''octoprint-B'']) ''B'' scenario_world) = None \<and>
   row_B \<in> set (db scenario_world) \<and> row_id row_B = ''B'' \<and>
   port row_B = Max (port ` set (db scenario_world)) \<and> port row_B = 2001 \<and>
   db (fst (DeleteContainer (failing [Stop ''octoprint-B'']) ''B'' scenario_world)) = [row_A] \<and>
   snd (getNextAvailablePort no_faults
          (fst (DeleteContainer (failing [Stop ''octoprint-B'']) ''B'' scenario_world))) = Inr 2001"
proof -
  let ?f = "failing [Stop ''octoprint-B'']"
  have d: "snd (DeleteContainer ?f ''B'' scenario_world) = None"
    by (simp add: DeleteContainer_B)
  have d1: "snd (DeleteContainer ?f ''B'' scenario_world)
              \<noteq> Some (Response 500 (ErrorMsg ''Failed to remove container''))"
    unfolding d by simp
  have d2: "snd (DeleteContainer ?f ''B'' scenario_world)
              \<noteq> Some (Response 500 (ErrorMsg ''Failed to delete container from database''))"
    unfolding d by simp
  have r: "row_B \<in> set (db scenario_world)" "row_id row_B = ''B''" "port row_B = 2001"
    by (simp_all add: scenario_world_simps row_B_def)
  have m: "port row_B = Max (port ` set (db scenario_world))"
    by (simp add: scenario_world_simps row_A_def row_B_def)
  have k: "distinct (map row_id (db scenario_world))" "distinct (map port (db scenario_world))"
    by (simp_all add: scenario_world_simps row_A_def row_B_def)
  have rg: "\<forall>x\<in>set (db scenario_world). 2000 \<le> port x \<and> port x < 2 ^ 63 - 1"
    by (simp add: scenario_world_simps row_A_def row_B_def)
  have q: "\<not> no_faults SelectMaxPort" by (simp add: no_faults_def)
  have w': "db (fst (DeleteContainer ?f ''B'' scenario_world)) = [row_A]"
    by (simp add: DeleteContainer_B)
  have pa: "port row_A = 2000" by (simp add: row_A_def)
  note t = next_port_after_delete_of_max
             [where f = ?f and i = "''B''" and w = scenario_world and r = row_B and g = no_faults,
              OF d1 d2 r(1) r(2) m k rg q]
  from t have "snd (getNextAvailablePort no_faults (fst (DeleteContainer ?f ''B'' scenario_world)))
                 = Inr 2001"
    unfolding w' by (simp add: pa)
  with d r m w' show ?thesis by blast
qed

lemma DeleteContainer_gap:
  "snd (DeleteContainer no_faults ''B'' gap_world) = None"
  "db (fst (DeleteContainer no_faults ''B'' gap_world)) = [row_A]"
proof -
  have c: "containers gap_world ''octoprint-B'' = Some \<lparr>Config = config_B, Running = False\<rparr>"
    by (simp add: gap_world_def scenario_world_simps)
  have d: "db gap_world = [row_A, row_B\<lparr>port := 2005\<rparr>]" by (simp add: gap_world_def)
  have "DeleteContainer no_faults ''B'' gap_world =
     (gap_world\<lparr>db := [row_A], containers := (containers gap_world)(''octoprint-B'' := None),
        dirs := dirs gap_world - {''/mnt/storage/octoprint/B''},
        trace := trace gap_world @ [Stop ''octoprint-B'', Remove ''octoprint-B'', DeleteRow ''B'',
                  Rmdir ''/mnt/storage/octoprint/B'']\<rparr>, None)"
    by (simp add: DeleteContainer_def cli_ContainerStop_def cli_ContainerRemove_def db_Delete_def
        os_RemoveAll_def no_faults_def c d issue_def row_A_def row_B_def Let_def)
  then show "snd (DeleteContainer no_faults ''B'' gap_world) = None"
    and "db (fst (DeleteContainer no_faults ''B'' gap_world)) = [row_A]"
    by simp_all
qed

text \<open>
  Claim C10 as stated fails on a table with a gap: deleting \<open>B\<close>, which holds the
  largest port 2005, makes the allocator return 2001, not 2005.
\<close>

theorem next_port_after_delete_of_max_counterexample:
  "db gap_world \<noteq> [] \<and> row_B\<lparr>port := 2005\<rparr> \<in> set (db gap_world) \<and>
   port (row_B\<lparr>port := 2005\<rparr>) = Max (port ` set (db gap_world)) \<and>
   row_id (row_B\<lparr>port := 2005\<rparr>) = ''B'' \<and>
   snd (DeleteContainer no_faults ''B'' gap_world) = None \<and>
   snd (getNextAvailablePort no_faults (fst (DeleteContainer no_faults ''B'' gap_world))) = Inr 2001 \<and>
   port (row_B\<lparr>port := 2005\<rparr>) = 2005"
proof -
  have d: "db gap_world = [row_A, row_B\<lparr>port := 2005\<rparr>]" by (simp add: gap_world_def)
  have m: "port (row_B\<lparr>port := 2005\<rparr>) = Max (port ` set (db gap_world))"
    unfolding d by (simp add: row_A_def row_B_def)
  have n: "snd (getNextAvailablePort no_faults (fst (DeleteContainer no_faults ''B'' gap_world)))
             = Inr 2001"
  proof -
    have q: "\<not> no_faults SelectMaxPort" by (simp add: no_faults_def)
    show ?thesis
      unfolding getNextAvailablePort_snd DeleteContainer_gap(2)
      using q by (simp add: row_A_def int64_wrap_def)
  qed
  from d m n DeleteContainer_gap(1) show ?thesis by (simp add: row_B_def)
qed

subsection \<open>Reconciliation\<close>

lemma recreate_rows_Cons:
  "recreate_rows f (r # rs) w errors =
     (if f (RowsNext (row_id r))
      then (issue (RowsNext (row_id r)) w, errors, Some (EnvError (RowsNext (row_id r))))
      else case recreate_row f r w of (w1, es) \<Rightarrow> recreate_rows f rs w1 (errors @ es))"
  by (simp add: recreate_row_def Let_def split: prod.splits sum.splits)

lemma recreate_rows_each:
  "\<forall>x\<in>set rows. \<not> f (RowsNext (row_id x)) \<Longrightarrow>
   recreate_rows f rows w errors =
     (fst (recreate_each f rows w), errors @ snd (recreate_each f rows w), None)"
proof (induction rows arbitrary: w errors)
  case Nil
  show ?case by simp
next
  case (Cons r rows)
  obtain w1 es where s: "recreate_row f r w = (w1, es)" by (cases "recreate_row f r w")
  obtain w2 es' where t: "recreate_each f rows w1 = (w2, es')" by (cases "recreate_each f rows w1")
  from Cons.prems have nf: "\<not> f (RowsNext (row_id r))" and rest: "\<forall>x\<in>set rows. \<not> f (RowsNext (row_id x))"
    by simp_all
  have "recreate_rows f (r # rows) w errors = recreate_rows f rows w1 (errors @ es)"
    unfolding recreate_rows_Cons using nf s by simp
  also have "\<dots> = (w2, (errors @ es) @ es', None)"
    using Cons.IH [OF rest, of w1 "errors @ es"] t by simp
  finally show ?case using s t by simp
qed

lemma cli_ContainerStart_eq:
  "cli_ContainerStart f n w =
     (if f (Start n) then (w\<lparr>trace := trace w @ [Start n]\<rparr>, Inl (EnvError (Start n)))
      else case containers w n of
             None \<Rightarrow> (w\<lparr>trace := trace w @ [Start n]\<rparr>, Inl (NoSuchContainer n))
           | Some c \<Rightarrow> (w\<lparr>containers := (containers w)(n \<mapsto> c\<lparr>Running := True\<rparr>),
                           trace := trace w @ [Start n]\<rparr>, Inr ()))"
  by (simp add: cli_ContainerStart_def issue_def split: option.splits)

lemma recreate_row_eq:
  "recreate_row f r w =
     (let i = row_id r; n = ''octoprint-'' @ i; sp = ''/dev/serial/by-id/'' @ device r;
          cfg = expected_config i (port r) (the (symlinks w sp));
          t = trace w @ [RowsNext i, ScanRow i]
      in if f (ScanRow i)
         then (w\<lparr>trace := t\<rparr>, [FailedToScanRow (EnvError (ScanRow i))])
         else if \<not> f (Inspect n) \<and> containers w n \<noteq> None
         then (if Running (the (containers w n))
               then (w\<lparr>trace := t @ [Inspect n]\<rparr>, [])
               else if f (Start n)
               then (w\<lparr>trace := t @ [Inspect n, Start n]\<rparr>,
                     [FailedToStartExistingContainer n (EnvError (Start n))])
               else (w\<lparr>containers := (containers w)(n \<mapsto> (the (containers w n))\<lparr>Running := True\<rparr>),
                        trace := t @ [Inspect n, Start n]\<rparr>, []))
         else if f (Readlink sp) \<or> symlinks w sp = None
         then (w\<lparr>trace := t @ [Inspect n, Readlink sp]\<rparr>,
               [FailedToCreateContainerNamed n
                  (FailedToResolveDeviceSymlink sp
                     (if f (Readlink sp) then EnvError (Readlink sp) else NoSuchFile sp))])
         else if f (Create n cfg) \<or> containers w n \<noteq> None
         then (w\<lparr>trace := t @ [Inspect n, Readlink sp, Create n cfg]\<rparr>,
               [FailedToCreateContainerNamed n
                  (FailedToCreateContainer
                     (if f (Create n cfg) then EnvError (Create n cfg) else NameConflict n))])
         else if f (Start n)
         then (w\<lparr>containers := (containers w)(n \<mapsto> \<lparr>Config = cfg, Running = False\<rparr>),
                  trace := t @ [Inspect n, Readlink sp, Create n cfg, Start n]\<rparr>,
               [FailedToCreateContainerNamed n (FailedToStartContainer (EnvError (Start n)))])
         else (w\<lparr>containers := (containers w)(n \<mapsto> \<lparr>Config = cfg, Running = True\<rparr>),
                  trace := t @ [Inspect n, Readlink sp, Create n cfg, Start n]\<rparr>, []))"
proof (cases "f (ScanRow (row_id r))")
  case True
  then show ?thesis by (simp add: recreate_row_def issue_def Let_def)
next
  case noscan: False
  let ?n = "''octoprint-'' @ row_id r"
  let ?w0 = "issue (ScanRow (row_id r)) (issue (RowsNext (row_id r)) w)"
  have w0: "?w0 = w\<lparr>trace := trace w @ [RowsNext (row_id r), ScanRow (row_id r)]\<rparr>"
    by (simp add: issue_def)
  show ?thesis
  proof (cases "\<not> f (Inspect ?n) \<and> containers w ?n \<noteq> None")
    case True
    then obtain c where c: "containers w ?n = Some c" and ni: "\<not> f (Inspect ?n)" by auto
    have insp: "cli_ContainerInspect f ?n ?w0 =
                  (w\<lparr>trace := trace w @ [RowsNext (row_id r), ScanRow (row_id r), Inspect ?n]\<rparr>, Inr c)"
      using c ni by (simp add: cli_ContainerInspect_eq w0)
    show ?thesis
    proof (cases "Running c")
      case True
      with noscan c ni insp show ?thesis by (simp add: recreate_row_def Let_def)
    next
      case False
      have st: "cli_ContainerStart f ?n
                  (w\<lparr>trace := trace w @ [RowsNext (row_id r), ScanRow (row_id r), Inspect ?n]\<rparr>) =
                (if f (Start ?n)
                 then (w\<lparr>trace := trace w @ [RowsNext (row_id r), ScanRow (row_id r), Inspect ?n, Start ?n]\<rparr>,
                       Inl (EnvError (Start ?n)))
                 else (w\<lparr>containers := (containers w)(?n \<mapsto> c\<lparr>Running := True\<rparr>),
                         trace := trace w @ [RowsNext (row_id r), ScanRow (row_id r), Inspect ?n, Start ?n]\<rparr>,
                       Inr ()))"
        using c by (simp add: cli_ContainerStart_eq)
      from False noscan c ni show ?thesis
        unfolding recreate_row_def Let_def insp prod.case sum.case st by simp
    qed
  next
    case absent: False
    then have insp: "cli_ContainerInspect f ?n ?w0 =
                  (w\<lparr>trace := trace w @ [RowsNext (row_id r), ScanRow (row_id r), Inspect ?n]\<rparr>,
                   Inl (if f (Inspect ?n) then EnvError (Inspect ?n) else NoSuchContainer ?n))"
      unfolding cli_ContainerInspect_eq w0 by (cases "f (Inspect ?n)") simp_all
    from absent noscan show ?thesis
      unfolding recreate_row_def Let_def insp prod.case sum.case createOctoPrintContainer_eq
      by (cases "f (Inspect ?n)"; simp)
  qed
qed

lemma recreate_row_outcome:
  "recreate_row f r w =
     (case row_outcome f r (containers w (''octoprint-'' @ row_id r))
             (symlinks w (''/dev/serial/by-id/'' @ device r)) of
        (inst', calls, errors) \<Rightarrow>
          (w\<lparr>containers := (containers w)(''octoprint-'' @ row_id r := inst'),
             trace := trace w @ calls\<rparr>, errors))"
  unfolding recreate_row_eq row_outcome_def Let_def
  by (simp add: fun_upd_idem)

lemma recreate_row_world:
  "fst (recreate_row f r w) =
     w\<lparr>containers := (containers w)
          (''octoprint-'' @ row_id r :=
             fst (row_outcome f r (containers w (''octoprint-'' @ row_id r))
                    (symlinks w (''/dev/serial/by-id/'' @ device r)))),
       trace := trace w @
          fst (snd (row_outcome f r (containers w (''octoprint-'' @ row_id r))
                      (symlinks w (''/dev/serial/by-id/'' @ device r))))\<rparr>"
  "snd (recreate_row f r w) =
     snd (snd (row_outcome f r (containers w (''octoprint-'' @ row_id r))
                 (symlinks w (''/dev/serial/by-id/'' @ device r))))"
  by (simp_all add: recreate_row_outcome split: prod.splits)

lemma row_outcome_calls_other:
  assumes "m \<noteq> ''octoprint-'' @ row_id r"
  shows "filter (runtime_call_on m) (fst (snd (row_outcome f r inst link))) = []"
  using assms unfolding row_outcome_def Let_def by simp

lemma recreate_row_frame:
  "db (fst (recreate_row f r w)) = db w"
  "dirs (fst (recreate_row f r w)) = dirs w"
  "symlinks (fst (recreate_row f r w)) = symlinks w"
  by (simp_all add: recreate_row_world)

lemma recreate_row_other:
  assumes "m \<noteq> ''octoprint-'' @ row_id r"
  shows "containers (fst (recreate_row f r w)) m = containers w m"
    and "filter (runtime_call_on m) (trace (fst (recreate_row f r w))) =
         filter (runtime_call_on m) (trace w)"
  using assms row_outcome_calls_other [OF assms] by (simp_all add: recreate_row_world)

lemma recreate_each_Cons:
  "fst (recreate_each f (r # rs) w) = fst (recreate_each f rs (fst (recreate_row f r w)))"
  "snd (recreate_each f (r # rs) w) =
     snd (recreate_row f r w) @ snd (recreate_each f rs (fst (recreate_row f r w)))"
  by (simp_all add: case_prod_beta)

lemma recreate_each_frame:
  "db (fst (recreate_each f rows w)) = db w \<and>
   dirs (fst (recreate_each f rows w)) = dirs w \<and>
   symlinks (fst (recreate_each f rows w)) = symlinks w"
proof (induction rows arbitrary: w)
  case Nil
  show ?case by simp
next
  case (Cons r rows)
  from Cons.IH [of "fst (recreate_row f r w)"] show ?case
    unfolding recreate_each_Cons by (simp add: recreate_row_frame)
qed

lemma recreate_each_other:
  "m \<notin> (\<lambda>x. ''octoprint-'' @ row_id x) ` set rows \<Longrightarrow>
   containers (fst (recreate_each f rows w)) m = containers w m \<and>
   filter (runtime_call_on m) (trace (fst (recreate_each f rows w))) =
     filter (runtime_call_on m) (trace w)"
proof (induction rows arbitrary: w)
  case Nil
  show ?case by simp
next
  case (Cons r rows)
  from Cons.prems have m: "m \<noteq> ''octoprint-'' @ row_id r"
    and rest: "m \<notin> (\<lambda>x. ''octoprint-'' @ row_id x) ` set rows"
    by auto
  from Cons.IH [OF rest, of "fst (recreate_row f r w)"] recreate_row_other [OF m, of f w]
  show ?case unfolding recreate_each_Cons by simp
qed

lemma recreate_each_own:
  assumes "distinct (map row_id rows)" and "r \<in> set rows"
  shows "containers (fst (recreate_each f rows w)) (''octoprint-'' @ row_id r) =
           fst (row_outcome f r (containers w (''octoprint-'' @ row_id r))
                  (symlinks w (''/dev/serial/by-id/'' @ device r))) \<and>
         filter (runtime_call_on (''octoprint-'' @ row_id r)) (trace (fst (recreate_each f rows w))) =
           filter (runtime_call_on (''octoprint-'' @ row_id r)) (trace w) @
           filter (runtime_call_on (''octoprint-'' @ row_id r))
             (fst (snd (row_outcome f r (containers w (''octoprint-'' @ row_id r))
                          (symlinks w (''/dev/serial/by-id/'' @ device r)))))"
  using assms
proof (induction rows arbitrary: w)
  case Nil
  then show ?case by simp
next
  case (Cons x rows)
  let ?n = "''octoprint-'' @ row_id r"
  let ?w1 = "fst (recreate_row f x w)"
  let ?o = "row_outcome f r (containers w ?n) (symlinks w (''/dev/serial/by-id/'' @ device r))"
  show ?case
  proof (cases "x = r")
    case True
    from Cons.prems True have "row_id r \<notin> row_id ` set rows" by simp
    then have "?n \<notin> (\<lambda>y. ''octoprint-'' @ row_id y) ` set rows" by auto
    from recreate_each_other [OF this, of f "fst (recreate_row f r w)"]
    have a: "containers (fst (recreate_each f rows (fst (recreate_row f r w)))) ?n =
             containers (fst (recreate_row f r w)) ?n"
      and b: "filter (runtime_call_on ?n) (trace (fst (recreate_each f rows (fst (recreate_row f r w))))) =
              filter (runtime_call_on ?n) (trace (fst (recreate_row f r w)))"
      by simp_all
    have c: "containers (fst (recreate_row f r w)) ?n = fst ?o"
      by (simp add: recreate_row_world(1))
    have d: "filter (runtime_call_on ?n) (trace (fst (recreate_row f r w))) =
             filter (runtime_call_on ?n) (trace w) @ filter (runtime_call_on ?n) (fst (snd ?o))"
      by (simp add: recreate_row_world(1))
    show ?thesis
      unfolding recreate_each_Cons True a b c d by simp
  next
    case False
    with Cons.prems have rin: "r \<in> set rows" and d: "distinct (map row_id rows)"
      by auto
    from rin have "row_id r \<in> row_id ` set rows" by (rule imageI)
    moreover from Cons.prems have "row_id x \<notin> row_id ` set rows" by simp
    ultimately have "row_id x \<noteq> row_id r" by metis
    then have m: "?n \<noteq> ''octoprint-'' @ row_id x" by simp
    from Cons.IH [OF d rin, of ?w1] recreate_row_other [OF m, of f w] recreate_row_frame(3) [of f x w]
    show ?thesis unfolding recreate_each_Cons by simp
  qed
qed


lemma RecreateAllContainers_each:
  assumes "\<not> f SelectRows" and "\<forall>x\<in>set (db w). \<not> f (RowsNext (row_id x))"
  shows "RecreateAllContainers f w =
           (fst (recreate_each f (db w) (issue SelectRows w)),
            if snd (recreate_each f (db w) (issue SelectRows w)) = [] then Inr ()
            else Inl (EncounteredErrors (snd (recreate_each f (db w) (issue SelectRows w)))))"
  unfolding RecreateAllContainers_def db_SelectRows_def
  using assms(1) recreate_rows_each [OF assms(2), of "issue SelectRows w" "[]"]
  by simp

lemma row_outcome_running:
  assumes "\<not> f (ScanRow (row_id r))" and "\<not> f (Inspect (''octoprint-'' @ row_id r))"
    and "Running c"
  shows "row_outcome f r (Some c) link =
           (Some c, [RowsNext (row_id r), ScanRow (row_id r), Inspect (''octoprint-'' @ row_id r)], [])"
  using assms unfolding row_outcome_def Let_def by simp

lemma row_outcome_stopped:
  assumes "\<not> f (ScanRow (row_id r))" and "\<not> f (Inspect (''octoprint-'' @ row_id r))"
    and "\<not> Running c"
  shows "row_outcome f r (Some c) link =
           (if f (Start (''octoprint-'' @ row_id r)) then Some c else Some (c\<lparr>Running := True\<rparr>),
            [RowsNext (row_id r), ScanRow (row_id r), Inspect (''octoprint-'' @ row_id r),
             Start (''octoprint-'' @ row_id r)],
            if f (Start (''octoprint-'' @ row_id r))
            then [FailedToStartExistingContainer (''octoprint-'' @ row_id r)
                    (EnvError (Start (''octoprint-'' @ row_id r)))]
            else [])"
  using assms unfolding row_outcome_def Let_def by simp

lemma row_outcome_unresolved:
  assumes "\<not> f (ScanRow (row_id r))"
    and "f (Inspect (''octoprint-'' @ row_id r)) \<or> inst = None"
    and "f (Readlink (''/dev/serial/by-id/'' @ device r)) \<or> link = None"
  shows "fst (row_outcome f r inst link) = inst \<and>
         fst (snd (row_outcome f r inst link)) =
           [RowsNext (row_id r), ScanRow (row_id r), Inspect (''octoprint-'' @ row_id r),
            Readlink (''/dev/serial/by-id/'' @ device r)]"
proof -
  from assms(2) have a: "\<not> (\<not> f (Inspect (''octoprint-'' @ row_id r)) \<and> inst \<noteq> None)" by blast
  show ?thesis
    unfolding row_outcome_def Let_def
    by (simp only: assms(1) a assms(3) if_True if_False fst_conv snd_conv simp_thms)
qed

lemma row_outcome_resolved:
  assumes "\<not> f (ScanRow (row_id r))"
    and "f (Inspect (''octoprint-'' @ row_id r)) \<or> inst = None"
    and "\<not> f (Readlink (''/dev/serial/by-id/'' @ device r))" and "link = Some usb"
  shows "fst (snd (row_outcome f r inst link)) =
           [RowsNext (row_id r), ScanRow (row_id r), Inspect (''octoprint-'' @ row_id r),
            Readlink (''/dev/serial/by-id/'' @ device r),
            Create (''octoprint-'' @ row_id r) (expected_config (row_id r) (port r) usb)] @
           (if f (Create (''octoprint-'' @ row_id r) (expected_config (row_id r) (port r) usb))
               \<or> inst \<noteq> None
            then [] else [Start (''octoprint-'' @ row_id r)]) \<and>
         (inst = None \<and>
          \<not> f (Create (''octoprint-'' @ row_id r) (expected_config (row_id r) (port r) usb)) \<and>
          \<not> f (Start (''octoprint-'' @ row_id r)) \<longrightarrow>
            fst (row_outcome f r inst link) =
              Some \<lparr>Config = expected_config (row_id r) (port r) usb, Running = True\<rparr>)"
proof -
  from assms(2) have a: "\<not> (\<not> f (Inspect (''octoprint-'' @ row_id r)) \<and> inst \<noteq> None)" by blast
  from assms(3,4) have b: "\<not> (f (Readlink (''/dev/serial/by-id/'' @ device r)) \<or> link = None)" by simp
  have c: "the link = usb" using assms(4) by simp
  show ?thesis
    unfolding row_outcome_def Let_def
    apply (simp only: assms(1) a b c if_False)
    apply (simp del: append.simps)
    done
qed

lemma row_outcome_no_allocation:
  "filter (\<lambda>c. c = SelectMaxPort) (fst (snd (row_outcome f r inst link))) = []"
  unfolding row_outcome_def Let_def by simp

lemma recreate_each_no_allocation:
  "filter (\<lambda>c. c = SelectMaxPort) (trace (fst (recreate_each f rows w))) =
   filter (\<lambda>c. c = SelectMaxPort) (trace w)"
proof (induction rows arbitrary: w)
  case Nil
  show ?case by simp
next
  case (Cons r rows)
  have "filter (\<lambda>c. c = SelectMaxPort) (trace (fst (recreate_row f r w))) =
        filter (\<lambda>c. c = SelectMaxPort) (trace w)"
    by (simp add: recreate_row_world(1) row_outcome_no_allocation)
  with Cons.IH [of "fst (recreate_row f r w)"] show ?case
    unfolding recreate_each_Cons by simp
qed

text \<open>
  Claim C4. In a pass of \<open>RecreateAllContainers\<close> over a table with distinct ids
  that the cursor delivers in full, a row whose scan succeeds is treated by what the
  inspection of its instance finds. Found running: the one call on the instance is the
  inspection, and the instance is as before. Found stopped: the calls are the inspection
  and one start, no creation, and the instance is the same one, running unless the start
  failed. Not found (absent, or the inspection failed): the calls are the inspection and
  then a creation with the configuration built from the row's own id, device and port,
  followed by a start when the creation went through; with no instance before and no
  failure the instance is then running with that configuration. When the device link
  does not resolve, the inspection is the only call and the instance is as before. The
  pass never queries the allocator.
\<close>

theorem RecreateAllContainers_case_analysis:
  fixes f w r
  defines "n \<equiv> ''octoprint-'' @ row_id r"
    and "sp \<equiv> ''/dev/serial/by-id/'' @ device r"
    and "w' \<equiv> fst (RecreateAllContainers f w)"
  assumes keys: "distinct (map row_id (db w))" and r: "r \<in> set (db w)"
    and cursor: "\<not> f SelectRows" "\<forall>x\<in>set (db w). \<not> f (RowsNext (row_id x))"
    and scan: "\<not> f (ScanRow (row_id r))"
  shows "(\<forall>c. \<not> f (Inspect n) \<and> containers w n = Some c \<and> Running c \<longrightarrow>
            filter (runtime_call_on n) (trace w') = filter (runtime_call_on n) (trace w) @ [Inspect n] \<and>
            containers w' n = Some c) \<and>
         (\<forall>c. \<not> f (Inspect n) \<and> containers w n = Some c \<and> \<not> Running c \<longrightarrow>
            filter (runtime_call_on n) (trace w') =
              filter (runtime_call_on n) (trace w) @ [Inspect n, Start n] \<and>
            containers w' n = (if f (Start n) then Some c else Some (c\<lparr>Running := True\<rparr>))) \<and>
         (\<forall>usb. (f (Inspect n) \<or> containers w n = None) \<and>
                symlinks w sp = Some usb \<and> \<not> f (Readlink sp) \<longrightarrow>
            filter (runtime_call_on n) (trace w') =
              filter (runtime_call_on n) (trace w) @
              [Inspect n, Create n (expected_config (row_id r) (port r) usb)] @
              (if f (Create n (expected_config (row_id r) (port r) usb)) \<or> containers w n \<noteq> None
               then [] else [Start n]) \<and>
            (containers w n = None \<and> \<not> f (Create n (expected_config (row_id r) (port r) usb)) \<and>
             \<not> f (Start n) \<longrightarrow>
               containers w' n =
                 Some \<lparr>Config = expected_config (row_id r) (port r) usb, Running = True\<rparr>)) \<and>
         ((f (Inspect n) \<or> containers w n = None) \<and> (f (Readlink sp) \<or> symlinks w sp = None) \<longrightarrow>
            filter (runtime_call_on n) (trace w') = filter (runtime_call_on n) (trace w) @ [Inspect n] \<and>
            containers w' n = containers w n) \<and>
         filter (\<lambda>c. c = SelectMaxPort) (trace w') = filter (\<lambda>c. c = SelectMaxPort) (trace w)"
proof -
  let ?w0 = "issue SelectRows w"
  let ?o = "row_outcome f r (containers w n) (symlinks w sp)"
  have w': "w' = fst (recreate_each f (db w) ?w0)"
    unfolding w'_def RecreateAllContainers_each [OF cursor] by simp
  from recreate_each_own [OF keys r, of f ?w0]
  have own: "containers w' n = fst ?o"
    "filter (runtime_call_on n) (trace w') =
       filter (runtime_call_on n) (trace w) @ filter (runtime_call_on n) (fst (snd ?o))"
    unfolding w' n_def sp_def by simp_all
  have alloc: "filter (\<lambda>c. c = SelectMaxPort) (trace w') = filter (\<lambda>c. c = SelectMaxPort) (trace w)"
    unfolding w' recreate_each_no_allocation by simp
  have running: "\<forall>c. \<not> f (Inspect n) \<and> containers w n = Some c \<and> Running c \<longrightarrow>
            filter (runtime_call_on n) (trace w') = filter (runtime_call_on n) (trace w) @ [Inspect n] \<and>
            containers w' n = Some c"
  proof (intro allI impI)
    fix c assume a: "\<not> f (Inspect n) \<and> containers w n = Some c \<and> Running c"
    then have "?o = (Some c, [RowsNext (row_id r), ScanRow (row_id r), Inspect n], [])"
      using row_outcome_running [of f r c "symlinks w sp"] scan unfolding n_def by simp
    then show "filter (runtime_call_on n) (trace w') = filter (runtime_call_on n) (trace w) @ [Inspect n] \<and>
            containers w' n = Some c"
      unfolding own by simp
  qed
  have stopped: "\<forall>c. \<not> f (Inspect n) \<and> containers w n = Some c \<and> \<not> Running c \<longrightarrow>
            filter (runtime_call_on n) (trace w') =
              filter (runtime_call_on n) (trace w) @ [Inspect n, Start n] \<and>
            containers w' n = (if f (Start n) then Some c else Some (c\<lparr>Running := True\<rparr>))"
  proof (intro allI impI)
    fix c assume a: "\<not> f (Inspect n) \<and> containers w n = Some c \<and> \<not> Running c"
    then have "fst ?o = (if f (Start n) then Some c else Some (c\<lparr>Running := True\<rparr>)) \<and>
               fst (snd ?o) = [RowsNext (row_id r), ScanRow (row_id r), Inspect n, Start n]"
      using row_outcome_stopped [of f r c "symlinks w sp"] scan unfolding n_def by simp
    then show "filter (runtime_call_on n) (trace w') =
              filter (runtime_call_on n) (trace w) @ [Inspect n, Start n] \<and>
            containers w' n = (if f (Start n) then Some c else Some (c\<lparr>Running := True\<rparr>))"
      unfolding own by simp
  qed
  have resolved: "\<forall>usb. (f (Inspect n) \<or> containers w n = None) \<and>
                symlinks w sp = Some usb \<and> \<not> f (Readlink sp) \<longrightarrow>
            filter (runtime_call_on n) (trace w') =
              filter (runtime_call_on n) (trace w) @
              [Inspect n, Create n (expected_config (row_id r) (port r) usb)] @
              (if f (Create n (expected_config (row_id r) (port r) usb)) \<or> containers w n \<noteq> None
               then [] else [Start n]) \<and>
            (containers w n = None \<and> \<not> f (Create n (expected_config (row_id r) (port r) usb)) \<and>
             \<not> f (Start n) \<longrightarrow>
               containers w' n =
                 Some \<lparr>Config = expected_config (row_id r) (port r) usb, Running = True\<rparr>)"
  proof (intro allI impI)
    fix usb assume a: "(f (Inspect n) \<or> containers w n = None) \<and>
                symlinks w sp = Some usb \<and> \<not> f (Readlink sp)"
    from a have a1: "f (Inspect (''octoprint-'' @ row_id r)) \<or> containers w n = None"
      and a2: "\<not> f (Readlink (''/dev/serial/by-id/'' @ device r))" and a3: "symlinks w sp = Some usb"
      unfolding n_def sp_def by simp_all
    note t = row_outcome_resolved [of f r "containers w n" "symlinks w sp" usb, OF scan a1 a2 a3]
    from t have calls: "filter (runtime_call_on n) (fst (snd ?o)) =
              [Inspect n, Create n (expected_config (row_id r) (port r) usb)] @
              (if f (Create n (expected_config (row_id r) (port r) usb)) \<or> containers w n \<noteq> None
               then [] else [Start n])"
      unfolding n_def by simp
    from t have inst: "containers w n = None \<and> \<not> f (Create n (expected_config (row_id r) (port r) usb)) \<and>
             \<not> f (Start n) \<longrightarrow>
               fst ?o = Some \<lparr>Config = expected_config (row_id r) (port r) usb, Running = True\<rparr>"
      unfolding n_def by blast
    from calls inst show "filter (runtime_call_on n) (trace w') =
              filter (runtime_call_on n) (trace w) @
              [Inspect n, Create n (expected_config (row_id r) (port r) usb)] @
              (if f (Create n (expected_config (row_id r) (port r) usb)) \<or> containers w n \<noteq> None
               then [] else [Start n]) \<and>
            (containers w n = None \<and> \<not> f (Create n (expected_config (row_id r) (port r) usb)) \<and>
             \<not> f (Start n) \<longrightarrow>
               containers w' n =
                 Some \<lparr>Config = expected_config (row_id r) (port r) usb, Running = True\<rparr>)"
      unfolding own by simp
  qed
  have unresolved: "(f (Inspect n) \<or> containers w n = None) \<and> (f (Readlink sp) \<or> symlinks w sp = None) \<longrightarrow>
            filter (runtime_call_on n) (trace w') = filter (runtime_call_on n) (trace w) @ [Inspect n] \<and>
            containers w' n = containers w n"
  proof
    assume a: "(f (Inspect n) \<or> containers w n = None) \<and> (f (Readlink sp) \<or> symlinks w sp = None)"
    from a have a1: "f (Inspect (''octoprint-'' @ row_id r)) \<or> containers w n = None"
      and a2: "f (Readlink (''/dev/serial/by-id/'' @ device r)) \<or> symlinks w sp = None"
      unfolding n_def sp_def by simp_all
    from row_outcome_unresolved [of f r "containers w n" "symlinks w sp", OF scan a1 a2]
    show "filter (runtime_call_on n) (trace w') = filter (runtime_call_on n) (trace w) @ [Inspect n] \<and>
            containers w' n = containers w n"
      unfolding own by (simp add: n_def)
  qed
  from running stopped resolved unresolved alloc show ?thesis by blast
qed








lemma scenario_keys:
  "distinct (map row_id (db scenario_world))"
  "row_A \<in> set (db scenario_world)" "row_B \<in> set (db scenario_world)"
  "row_id row_A = ''A''" "row_id row_B = ''B''"
  "device row_A = ''usbA''" "port row_A = 2000"
  by (simp_all add: scenario_world_simps row_A_def row_B_def)

lemma no_faults_simp: "\<not> no_faults c"
  by (simp add: no_faults_def)

theorem RecreateAllContainers_case_analysis_witness:
  "filter (runtime_call_on ''octoprint-B'') (trace (fst (RecreateAllContainers no_faults running_world)))
     = [Inspect ''octoprint-B''] \<and>
   containers (fst (RecreateAllContainers no_faults running_world)) ''octoprint-B''
     = Some \<lparr>Config = config_B, Running = True\<rparr> \<and>
   filter (runtime_call_on ''octoprint-B'') (trace (fst (RecreateAllContainers no_faults scenario_world)))
     = [Inspect ''octoprint-B'', Start ''octoprint-B''] \<and>
   containers (fst (RecreateAllContainers no_faults scenario_world)) ''octoprint-B''
     = Some \<lparr>Config = config_B, Running = True\<rparr> \<and>
   filter (runtime_call_on ''octoprint-A'') (trace (fst (RecreateAllContainers no_faults scenario_world)))
     = [Inspect ''octoprint-A'', Create ''octoprint-A'' (expected_config ''A'' 2000 ''/dev/ttyUSB0''),
        Start ''octoprint-A''] \<and>
   containers (fst (RecreateAllContainers no_faults scenario_world)) ''octoprint-A''
     = Some \<lparr>Config = expected_config ''A'' 2000 ''/dev/ttyUSB0'', Running = True\<rparr> \<and>
   filter (runtime_call_on ''octoprint-A'') (trace (fst (RecreateAllContainers no_faults unplugged_world)))
     = [Inspect ''octoprint-A''] \<and>
   containers (fst (RecreateAllContainers no_faults unplugged_world)) ''octoprint-A'' = None"
proof -
  have rw: "db running_world = db scenario_world" "trace running_world = []"
    "containers running_world (''octoprint-'' @ row_id row_B) = Some \<lparr>Config = config_B, Running = True\<rparr>"
    by (simp_all add: running_world_def scenario_world_simps scenario_keys)
  have uw: "db unplugged_world = db scenario_world" "trace unplugged_world = []"
    "containers unplugged_world (''octoprint-'' @ row_id row_A) = None"
    "symlinks unplugged_world (''/dev/serial/by-id/'' @ device row_A) = None"
    by (simp_all add: unplugged_world_def scenario_world_simps scenario_keys)
  have sw: "containers scenario_world (''octoprint-'' @ row_id row_B) = Some \<lparr>Config = config_B, Running = False\<rparr>"
    "containers scenario_world (''octoprint-'' @ row_id row_A) = None"
    "symlinks scenario_world (''/dev/serial/by-id/'' @ device row_A) = Some ''/dev/ttyUSB0''"
    by (simp_all add: scenario_world_simps scenario_keys)
  have cur: "\<forall>x\<in>set (db scenario_world). \<not> no_faults (RowsNext (row_id x))"
    by (simp add: no_faults_simp)
  note t1 = RecreateAllContainers_case_analysis
      [where f = no_faults and w = running_world and r = row_B, unfolded rw(1),
       OF scenario_keys(1) scenario_keys(3) no_faults_simp cur no_faults_simp]
  note t2 = RecreateAllContainers_case_analysis
      [where f = no_faults and w = scenario_world and r = row_B,
       OF scenario_keys(1) scenario_keys(3) no_faults_simp cur no_faults_simp]
  note t3 = RecreateAllContainers_case_analysis
      [where f = no_faults and w = scenario_world and r = row_A,
       OF scenario_keys(1) scenario_keys(2) no_faults_simp cur no_faults_simp]
  note t4 = RecreateAllContainers_case_analysis
      [where f = no_faults and w = unplugged_world and r = row_A, unfolded uw(1),
       OF scenario_keys(1) scenario_keys(2) no_faults_simp cur no_faults_simp]
  have a1: "filter (runtime_call_on (''octoprint-'' @ row_id row_B))
              (trace (fst (RecreateAllContainers no_faults running_world))) =
            filter (runtime_call_on (''octoprint-'' @ row_id row_B)) (trace running_world) @
              [Inspect (''octoprint-'' @ row_id row_B)] \<and>
            containers (fst (RecreateAllContainers no_faults running_world)) (''octoprint-'' @ row_id row_B)
              = Some \<lparr>Config = config_B, Running = True\<rparr>"
    using t1 rw(3) no_faults_simp by simp
  have a2: "filter (runtime_call_on (''octoprint-'' @ row_id row_B))
              (trace (fst (RecreateAllContainers no_faults scenario_world))) =
            filter (runtime_call_on (''octoprint-'' @ row_id row_B)) (trace scenario_world) @
              [Inspect (''octoprint-'' @ row_id row_B), Start (''octoprint-'' @ row_id row_B)] \<and>
            containers (fst (RecreateAllContainers no_faults scenario_world)) (''octoprint-'' @ row_id row_B)
              = Some \<lparr>Config = config_B, Running = True\<rparr>"
    using t2 sw(1) no_faults_simp by simp
  have a3: "filter (runtime_call_on (''octoprint-'' @ row_id row_A))
              (trace (fst (RecreateAllContainers no_faults scenario_world))) =
            filter (runtime_call_on (''octoprint-'' @ row_id row_A)) (trace scenario_world) @
              [Inspect (''octoprint-'' @ row_id row_A),
               Create (''octoprint-'' @ row_id row_A)
                 (expected_config (row_id row_A) (port row_A) ''/dev/ttyUSB0''),
               Start (''octoprint-'' @ row_id row_A)] \<and>
            containers (fst (RecreateAllContainers no_faults scenario_world)) (''octoprint-'' @ row_id row_A)
              = Some \<lparr>Config = expected_config (row_id row_A) (port row_A) ''/dev/ttyUSB0'',
                      Running = True\<rparr>"
    using t3 sw(2,3) no_faults_simp by simp
  have a4: "filter (runtime_call_on (''octoprint-'' @ row_id row_A))
              (trace (fst (RecreateAllContainers no_faults unplugged_world))) =
            filter (runtime_call_on (''octoprint-'' @ row_id row_A)) (trace unplugged_world) @
              [Inspect (''octoprint-'' @ row_id row_A)] \<and>
            containers (fst (RecreateAllContainers no_faults unplugged_world)) (''octoprint-'' @ row_id row_A)
              = None"
    using t4 uw(3,4) no_faults_simp by simp
  from a1 a2 a3 a4 show ?thesis
    by (simp add: scenario_keys rw(2) uw(2) scenario_world_simps(4))
qed




end
